theory Spec2Isabelle
  imports Main "HOL-Library.Word" "HOL-Library.Multiset"
begin

section \<open>Errors\<close>

text \<open>
  Go's \<^verbatim>\<open>error\<close> values, as this program builds them. \<open>Errorf t\<close> is
  \<^verbatim>\<open>fmt.Errorf\<close> whose rendered text is \<open>t\<close> (constant text, or text with \<^verbatim>\<open>%s\<close>
  arguments spliced in). \<open>Wrap t e\<close> is \<^verbatim>\<open>fmt.Errorf("<t>: %w", e)\<close>. The remaining
  constructors stand for the messages with \<^verbatim>\<open>%c\<close>, \<^verbatim>\<open>%d\<close>, \<^verbatim>\<open>%q\<close> arguments and keep
  the arguments instead of the rendered text:
  \<^item> \<open>InvalidCharacter c i p\<close>: "file prefix contains invalid character '%c' at position %d: %q"
  \<^item> \<open>ControlCharacter c i p\<close>: "file prefix contains control character (0x%02X) at position %d: %q"
  \<^item> \<open>DelCharacter i p\<close>: "file prefix contains DEL character at position %d: %q"
  \<^item> \<open>EdgeWhitespace p\<close>: "file prefix cannot start or end with whitespace: %q"
  \<^item> \<open>DuplicateBegin b\<close>: "duplicate begin value %d for count = 1"
  \<^item> \<open>InvalidCount n\<close>: "invalid partition filter count: %d"
  \<^item> \<open>OverlappingIntervals a b c d\<close>: "overlapping intervals: [%d, %d] and [%d, %d]"
  \<^item> \<open>RackIdNegative n\<close>: "rack id %d invalid, should be non-negative number"
  \<^item> \<open>RackIdTooLarge n m\<close>: "rack id %d invalid, should not exceed %d"
  \<^item> \<open>Panic t\<close>: a run-time panic (a nil pointer is dereferenced) with the text \<open>t\<close>.
\<close>

datatype error =
    Errorf string
  | Wrap string error
  | InvalidCharacter char nat string
  | ControlCharacter char nat string
  | DelCharacter nat string
  | EdgeWhitespace string
  | DuplicateBegin int
  | InvalidCount int
  | OverlappingIntervals int int int int
  | RackIdNegative int
  | RackIdTooLarge int int
  | Panic string

section \<open>Option model: Common and Backup\<close>

text \<open>
  \<^verbatim>\<open>models.Common\<close> is embedded in \<^verbatim>\<open>Backup\<close> and \<^verbatim>\<open>Restore\<close>; its declaration is not
  among the sources, so the record lists the fields that the functions below read, with
  the types their uses and the DTO projection give them. Go's \<^verbatim>\<open>int\<close> and \<^verbatim>\<open>int64\<close>
  fields that are only compared with constants or copied are \<open>int\<close>; \<^verbatim>\<open>FileLimit\<close>
  (\<^verbatim>\<open>uint64\<close>), \<^verbatim>\<open>Bandwidth\<close> and the timeouts in milliseconds (\<^verbatim>\<open>int64\<close>, and
  \<^verbatim>\<open>int\<close> for \<^verbatim>\<open>SleepBetweenRetries\<close>) are multiplied, so they are 64-bit words.
\<close>

record Common =
  Directory :: string
  Namespace :: string
  SetList :: string
  BinList :: string
  Parallel :: int
  NoRecords :: bool
  NoIndexes :: bool
  NoUDFs :: bool
  RecordsPerSecond :: int
  Bandwidth :: "64 word"
  TotalTimeout :: "64 word"
  SocketTimeout :: "64 word"

record Backup =
  common :: Common
  MaxRetries :: int
  OutputFile :: string
  RemoveFiles :: bool
  ModifiedBefore :: string
  ModifiedAfter :: string
  FileLimit :: "64 word"
  AfterDigest :: string
  MaxRecords :: int
  NoBins :: bool
  SleepBetweenRetries :: "64 word"
  FilterExpression :: string
  RemoveArtifacts :: bool
  Compact :: bool
  NodeList :: string
  NoTTLOnly :: bool
  PreferRacks :: string
  PartitionList :: string
  Estimate :: bool
  EstimateSamples :: int
  StateFileDst :: string
  Continue :: string
  ScanPageSize :: int
  OutputFilePrefix :: string
  RackList :: string

text \<open>\<^verbatim>\<open>ShouldClearTarget\<close>: check if we should clean the target directory.\<close>

definition ShouldClearTarget :: "Backup \<Rightarrow> bool" where
  "ShouldClearTarget b = ((RemoveFiles b \<or> RemoveArtifacts b) \<and> Continue b = [])"

definition ShouldSaveState :: "Backup \<Rightarrow> bool" where
  "ShouldSaveState b = (StateFileDst b \<noteq> [] \<or> Continue b \<noteq> [])"

section \<open>String helpers of the Go library\<close>

text \<open>\<^verbatim>\<open>strings.Join\<close>.\<close>

fun Join :: "string list \<Rightarrow> string \<Rightarrow> string" where
  "Join [] sep = []"
| "Join [x] sep = x"
| "Join (x # y # ys) sep = x @ sep @ Join (y # ys) sep"

text \<open>
  \<^verbatim>\<open>strings.Split(s, ",")\<close>: the pieces between the commas, one more than there are
  commas, so never an empty list.
\<close>

fun Split :: "string \<Rightarrow> string list" where
  "Split [] = [[]]"
| "Split (c # cs) =
     (if c = CHR '','' then [] # Split cs
      else (case Split cs of [] \<Rightarrow> [[c]] | p # ps \<Rightarrow> (c # p) # ps))"

text \<open>
  \<^verbatim>\<open>SplitByComma\<close>: nil (the empty list) for the empty string, \<^verbatim>\<open>strings.Split\<close>
  otherwise.
\<close>

definition SplitByComma :: "string \<Rightarrow> string list" where
  "SplitByComma s = (if s = [] then [] else Split s)"

text \<open>
  \<^verbatim>\<open>strings.TrimSpace\<close> removes the leading and trailing runes for which
  \<^verbatim>\<open>unicode.IsSpace\<close> holds. A Go string is a byte sequence, read as UTF-8;
  \<open>spaceRunes\<close> lists the UTF-8 encodings of the white-space runes: U+0009 to U+000D,
  U+0020, U+0085, U+00A0, U+1680, U+2000 to U+200A, U+2028, U+2029, U+202F, U+205F,
  U+3000.
\<close>

definition spaceRunes :: "string list" where
  "spaceRunes =
    [[CHR 0x09], [CHR 0x0A], [CHR 0x0B], [CHR 0x0C], [CHR 0x0D], [CHR 0x20],
     [CHR 0xC2, CHR 0x85], [CHR 0xC2, CHR 0xA0],
     [CHR 0xE1, CHR 0x9A, CHR 0x80],
     [CHR 0xE2, CHR 0x80, CHR 0x80], [CHR 0xE2, CHR 0x80, CHR 0x81],
     [CHR 0xE2, CHR 0x80, CHR 0x82], [CHR 0xE2, CHR 0x80, CHR 0x83],
     [CHR 0xE2, CHR 0x80, CHR 0x84], [CHR 0xE2, CHR 0x80, CHR 0x85],
     [CHR 0xE2, CHR 0x80, CHR 0x86], [CHR 0xE2, CHR 0x80, CHR 0x87],
     [CHR 0xE2, CHR 0x80, CHR 0x88], [CHR 0xE2, CHR 0x80, CHR 0x89],
     [CHR 0xE2, CHR 0x80, CHR 0x8A],
     [CHR 0xE2, CHR 0x80, CHR 0xA8], [CHR 0xE2, CHR 0x80, CHR 0xA9],
     [CHR 0xE2, CHR 0x80, CHR 0xAF],
     [CHR 0xE2, CHR 0x81, CHR 0x9F],
     [CHR 0xE3, CHR 0x80, CHR 0x80]]"

text \<open>
  \<open>spaceWidth tbl s\<close>: the number of bytes of the white-space rune that \<open>s\<close> starts
  with, 0 when it starts with none. \<open>tbl\<close> is \<open>spaceRunes\<close> for the front of the
  string and the reversed encodings for its (reversed) end.
\<close>

fun spaceWidth :: "string list \<Rightarrow> string \<Rightarrow> nat" where
  "spaceWidth [] s = 0"
| "spaceWidth (w # ws) s =
     (if w \<noteq> [] \<and> take (length w) s = w then length w else spaceWidth ws s)"

function trimLeft :: "string list \<Rightarrow> string \<Rightarrow> string" where
  "trimLeft tbl s =
     (if spaceWidth tbl s = 0 then s else trimLeft tbl (drop (spaceWidth tbl s) s))"
  by pat_completeness auto
termination
proof (relation "measure (\<lambda>(tbl, s). length s)")
  show "wf (measure (\<lambda>(tbl, s). length s))" by simp
next
  fix tbl :: "string list" and s :: string
  assume nz: "spaceWidth tbl s \<noteq> 0"
  have "spaceWidth tbl s \<le> length s"
  proof (induction tbl)
    case Nil
    show ?case by simp
  next
    case (Cons w ws)
    have "take (length w) s = w \<Longrightarrow> length w \<le> length s"
      by (metis length_take min.cobounded1)
    with Cons show ?case by simp
  qed
  with nz show "((tbl, drop (spaceWidth tbl s) s), (tbl, s)) \<in> measure (\<lambda>(tbl, s). length s)"
    by simp
qed

declare trimLeft.simps [simp del]

definition TrimSpace :: "string \<Rightarrow> string" where
  "TrimSpace s = rev (trimLeft (map rev spaceRunes) (rev (trimLeft spaceRunes s)))"

section \<open>validateFilePrefix\<close>

text \<open>
  The loop \<^verbatim>\<open>for i, char := range prefix\<close> decodes the string rune by rune, \<open>i\<close> being
  the byte offset of the rune. Every rune it tests for is below 0x80, a rune below 0x80
  is one byte, and all bytes of a longer encoding (and an invalid byte, which decodes to
  U+FFFD) are 0x80 or above: so the loop fails at the first byte that is one of the
  tested characters, at that byte's offset, and the model walks the bytes.
\<close>

definition invalidChars :: string where
  "invalidChars =
     [CHR 0x5C, CHR ''/'', CHR '':'', CHR ''*'', CHR ''?'', CHR 0x22, CHR ''<'', CHR ''>'', CHR ''|'']"

fun prefixLoop :: "string \<Rightarrow> nat \<Rightarrow> string \<Rightarrow> error option" where
  "prefixLoop prefix i [] = None"
| "prefixLoop prefix i (c # cs) =
     (if c \<in> set invalidChars then Some (InvalidCharacter c i prefix)
      else if (of_char c :: nat) < 32 then Some (ControlCharacter c i prefix)
      else if (of_char c :: nat) = 127 then Some (DelCharacter i prefix)
      else prefixLoop prefix (i + 1) cs)"

definition validateFilePrefix :: "string \<Rightarrow> error option" where
  "validateFilePrefix prefix =
     (if prefix = [] then None
      else (case prefixLoop prefix 0 prefix of
              Some e \<Rightarrow> Some e
            | None \<Rightarrow>
                if TrimSpace prefix \<noteq> prefix then Some (EdgeWhitespace prefix) else None))"

subsection \<open>The character classes that validateFilePrefix rejects\<close>

text \<open>
  The three conditions of the specification, stated on the prefix itself: it contains one
  of the nine forbidden characters, a control character (0 to 31) or DEL (127); it
  starts with a white-space rune; it ends with one.
\<close>

definition forbiddenChar :: "char \<Rightarrow> bool" where
  "forbiddenChar c =
     (c \<in> set invalidChars \<or> (of_char c :: nat) < 32 \<or> (of_char c :: nat) = 127)"

definition startsWithSpace :: "string \<Rightarrow> bool" where
  "startsWithSpace p = (\<exists>w \<in> set spaceRunes. take (length w) p = w)"

definition endsWithSpace :: "string \<Rightarrow> bool" where
  "endsWithSpace p = (\<exists>w \<in> set spaceRunes. drop (length p - length w) p = w)"

section \<open>Backup.Validate\<close>

text \<open>\<^verbatim>\<open>validateSingleFilter\<close> ensures only one filtering option is specified.\<close>

definition setFilters :: "Backup \<Rightarrow> string list" where
  "setFilters b =
     (if AfterDigest b \<noteq> [] then [''after-digest''] else []) @
     (if PartitionList b \<noteq> [] then [''partition-list''] else []) @
     (if NodeList b \<noteq> [] then [''node-list''] else []) @
     (if RackList b \<noteq> [] then [''rack-list''] else [])"

definition validateSingleFilter :: "Backup \<Rightarrow> error option" where
  "validateSingleFilter b =
     (if length (setFilters b) > 1
      then Some (Errorf (''only one of '' @ Join (setFilters b) '' or '' @ '' can be configured''))
      else None)"

text \<open>
  \<^verbatim>\<open>Backup.Validate\<close> for a non-nil receiver. \<^verbatim>\<open>Common.Validate\<close>, which it calls last,
  is not among the sources and is the parameter \<open>cv\<close>.
\<close>

definition Backup_Validate :: "(Common \<Rightarrow> error option) \<Rightarrow> Backup \<Rightarrow> error option" where
  "Backup_Validate cv b =
    (if \<not> Estimate b \<and> OutputFile b = [] \<and> Directory (common b) = []
     then Some (Errorf ''must specify either estimate, output-file or directory'')
     else if Directory (common b) \<noteq> [] \<and> OutputFile b \<noteq> []
     then Some (Errorf ''only one of output-file and directory may be configured at the same time'')
     else (case validateFilePrefix (OutputFilePrefix b) of
       Some e \<Rightarrow> Some (Wrap ''invalid output-file-prefix'' e)
     | None \<Rightarrow>
     if OutputFile b \<noteq> [] \<and> OutputFilePrefix b \<noteq> []
     then Some (Errorf ''using output-file-prefix is not allowed with output-file'')
     else (case validateSingleFilter b of
       Some e \<Rightarrow> Some e
     | None \<Rightarrow>
     if Continue b \<noteq> [] \<and> StateFileDst b \<noteq> []
     then Some (Errorf ''continue and state-file-dst are mutually exclusive'')
     else if Continue b \<noteq> [] \<and> RemoveFiles b
     then Some (Errorf
       ''continue and remove-files are mutually exclusive, as remove-files will delete the backup files'')
     else if MaxRecords b \<noteq> 0 \<and> Parallel (common b) \<noteq> 1
     then Some (Errorf ''max-records must be used with parallel = 1'')
     else if Estimate b then
       (if PartitionList b \<noteq> [] \<or> NodeList b \<noteq> [] \<or> AfterDigest b \<noteq> [] \<or>
           FilterExpression b \<noteq> [] \<or> ModifiedAfter b \<noteq> [] \<or> ModifiedBefore b \<noteq> [] \<or>
           NoTTLOnly b
        then Some (Errorf ''estimate with any filter is not allowed'')
        else if OutputFile b \<noteq> [] \<or> Directory (common b) \<noteq> []
        then Some (Errorf ''estimate with output-file or directory is not allowed'')
        else if EstimateSamples b < 0
        then Some (Errorf ''estimate with estimate-samples < 0 is not allowed'')
        else cv (common b))
     else cv (common b))))"


text \<open>The zero values of the two structs (all fields empty, false or 0).\<close>

definition zeroCommon :: Common where
  "zeroCommon = \<lparr>Directory = [], Namespace = [], SetList = [], BinList = [], Parallel = 0,
     NoRecords = False, NoIndexes = False, NoUDFs = False, RecordsPerSecond = 0, Bandwidth = 0,
     TotalTimeout = 0, SocketTimeout = 0\<rparr>"

definition zeroBackup :: Backup where
  "zeroBackup = \<lparr>common = zeroCommon, MaxRetries = 0, OutputFile = [], RemoveFiles = False,
     ModifiedBefore = [], ModifiedAfter = [], FileLimit = 0, AfterDigest = [], MaxRecords = 0,
     NoBins = False, SleepBetweenRetries = 0, FilterExpression = [], RemoveArtifacts = False,
     Compact = False, NodeList = [], NoTTLOnly = False, PreferRacks = [], PartitionList = [],
     Estimate = False, EstimateSamples = 0, StateFileDst = [], Continue = [], ScanPageSize = 0,
     OutputFilePrefix = [], RackList = []\<rparr>"

subsection \<open>The ten checks of Backup.Validate, one by one\<close>

text \<open>
  Each constraint of \<^verbatim>\<open>Backup.Validate\<close> as a check of its own, with the condition and
  the error of the source; \<open>checks\<close> lists them in the order of the specification and
  \<open>firstViolation\<close> is the error of the earliest check that fails.
\<close>

definition checkOutputTarget :: "Backup \<Rightarrow> error option" where
  "checkOutputTarget b =
     (if \<not> Estimate b \<and> OutputFile b = [] \<and> Directory (common b) = []
      then Some (Errorf ''must specify either estimate, output-file or directory'') else None)"

definition checkFileOrDirectory :: "Backup \<Rightarrow> error option" where
  "checkFileOrDirectory b =
     (if Directory (common b) \<noteq> [] \<and> OutputFile b \<noteq> []
      then Some (Errorf ''only one of output-file and directory may be configured at the same time'')
      else None)"

definition checkPrefixSafety :: "Backup \<Rightarrow> error option" where
  "checkPrefixSafety b =
     (case validateFilePrefix (OutputFilePrefix b) of
        Some e \<Rightarrow> Some (Wrap ''invalid output-file-prefix'' e) | None \<Rightarrow> None)"

definition checkPrefixOrFile :: "Backup \<Rightarrow> error option" where
  "checkPrefixOrFile b =
     (if OutputFile b \<noteq> [] \<and> OutputFilePrefix b \<noteq> []
      then Some (Errorf ''using output-file-prefix is not allowed with output-file'') else None)"

definition checkContinueStateFile :: "Backup \<Rightarrow> error option" where
  "checkContinueStateFile b =
     (if Continue b \<noteq> [] \<and> StateFileDst b \<noteq> []
      then Some (Errorf ''continue and state-file-dst are mutually exclusive'') else None)"

definition checkContinueRemoveFiles :: "Backup \<Rightarrow> error option" where
  "checkContinueRemoveFiles b =
     (if Continue b \<noteq> [] \<and> RemoveFiles b
      then Some (Errorf
        ''continue and remove-files are mutually exclusive, as remove-files will delete the backup files'')
      else None)"

definition checkMaxRecords :: "Backup \<Rightarrow> error option" where
  "checkMaxRecords b =
     (if MaxRecords b \<noteq> 0 \<and> Parallel (common b) \<noteq> 1
      then Some (Errorf ''max-records must be used with parallel = 1'') else None)"

definition checkEstimate :: "Backup \<Rightarrow> error option" where
  "checkEstimate b =
     (if Estimate b then
        (if PartitionList b \<noteq> [] \<or> NodeList b \<noteq> [] \<or> AfterDigest b \<noteq> [] \<or>
            FilterExpression b \<noteq> [] \<or> ModifiedAfter b \<noteq> [] \<or> ModifiedBefore b \<noteq> [] \<or>
            NoTTLOnly b
         then Some (Errorf ''estimate with any filter is not allowed'')
         else if OutputFile b \<noteq> [] \<or> Directory (common b) \<noteq> []
         then Some (Errorf ''estimate with output-file or directory is not allowed'')
         else if EstimateSamples b < 0
         then Some (Errorf ''estimate with estimate-samples < 0 is not allowed'')
         else None)
      else None)"

definition checks :: "(Common \<Rightarrow> error option) \<Rightarrow> Backup \<Rightarrow> error option list" where
  "checks cv b =
     [checkOutputTarget b, checkFileOrDirectory b, checkPrefixSafety b, checkPrefixOrFile b,
      validateSingleFilter b, checkContinueStateFile b, checkContinueRemoveFiles b,
      checkMaxRecords b, checkEstimate b, cv (common b)]"

fun firstViolation :: "error option list \<Rightarrow> error option" where
  "firstViolation [] = None"
| "firstViolation (None # cs) = firstViolation cs"
| "firstViolation (Some e # cs) = Some e"

text \<open>The receiver is a pointer: a nil \<^verbatim>\<open>*Backup\<close> validates to no error.\<close>

definition Backup_Validate_ptr :: "(Common \<Rightarrow> error option) \<Rightarrow> Backup option \<Rightarrow> error option" where
  "Backup_Validate_ptr cv p = (case p of None \<Rightarrow> None | Some b \<Rightarrow> Backup_Validate cv b)"

text \<open>
  The input of the estimate-mode finding: estimate mode with a rack list, a namespace,
  and every other field at its zero value.
\<close>

definition estimateRackList :: Backup where
  "estimateRackList =
     zeroBackup\<lparr>common := zeroCommon\<lparr>Namespace := ''test''\<rparr>, Estimate := True, RackList := ''1''\<rparr>"


section \<open>Restore\<close>

text \<open>
  \<^verbatim>\<open>models.Restore\<close>. The embedded \<^verbatim>\<open>Common\<close> is the field \<open>rcommon\<close>;
  \<^verbatim>\<open>RetryMultiplier\<close> (a \<^verbatim>\<open>float64\<close>) is read by none of the functions below and is left
  out.
\<close>

record Restore =
  rcommon :: Common
  InputFile :: string
  DirectoryList :: string
  ParentDirectory :: string
  DisableBatchWrites :: bool
  BatchSize :: int
  MaxAsyncBatches :: int
  WarmUp :: int
  ExtraTTL :: int
  IgnoreRecordError :: bool
  Uniq :: bool
  Replace :: bool
  NoGeneration :: bool
  RetryBaseInterval :: int
  RetryMaxAttempts :: nat
  Mode :: string
  ValidateOnly :: bool
  ApplyMetadataLast :: bool

definition zeroRestore :: Restore where
  "zeroRestore = \<lparr>rcommon = zeroCommon, InputFile = [], DirectoryList = [], ParentDirectory = [],
     DisableBatchWrites = False, BatchSize = 0, MaxAsyncBatches = 0, WarmUp = 0, ExtraTTL = 0,
     IgnoreRecordError = False, Uniq = False, Replace = False, NoGeneration = False,
     RetryBaseInterval = 0, RetryMaxAttempts = 0, Mode = [], ValidateOnly = False,
     ApplyMetadataLast = False\<rparr>"

definition RestoreModeAuto :: string where "RestoreModeAuto = ''auto''"
definition RestoreModeASB :: string where "RestoreModeASB = ''asb''"
definition RestoreModeASBX :: string where "RestoreModeASBX = ''asbx''"

definition IsDirectoryRestore :: "Restore \<Rightarrow> bool" where
  "IsDirectoryRestore r = (DirectoryList r = [] \<and> InputFile r = [])"

text \<open>
  \<^verbatim>\<open>Restore.Validate\<close> for a non-nil receiver, \<^verbatim>\<open>Common.Validate\<close> being the parameter
  \<open>cv\<close>, called only when the restore is not in validate-only mode.
\<close>

definition Restore_Validate :: "(Common \<Rightarrow> error option) \<Rightarrow> Restore \<Rightarrow> error option" where
  "Restore_Validate cv r =
    (if \<not> (Mode r = RestoreModeAuto \<or> Mode r = RestoreModeASB \<or> Mode r = RestoreModeASBX)
     then Some (Errorf (''invalid restore mode: '' @ Mode r))
     else if InputFile r = [] \<and> Directory (rcommon r) = [] \<and> DirectoryList r = []
     then Some (Errorf ''input file or directory required'')
     else if Directory (rcommon r) \<noteq> [] \<and> InputFile r \<noteq> []
     then Some (Errorf ''only one of directory and input-file may be configured at the same time'')
     else if DirectoryList r \<noteq> [] \<and> (Directory (rcommon r) \<noteq> [] \<or> InputFile r \<noteq> [])
     then Some (Errorf
       ''only one of directory, input-file and directory-list may be configured at the same time'')
     else if ParentDirectory r \<noteq> [] \<and> DirectoryList r = []
     then Some (Errorf ''must specify directory-list list'')
     else if WarmUp r < 0
     then Some (Errorf ''warm-up must be non-negative'')
     else if \<not> ValidateOnly r
     then (case cv (rcommon r) of Some e \<Rightarrow> Some e | None \<Rightarrow> None)
     else None)"

definition Restore_Validate_ptr ::
  "(Common \<Rightarrow> error option) \<Rightarrow> Restore option \<Rightarrow> error option" where
  "Restore_Validate_ptr cv p = (case p of None \<Rightarrow> None | Some r \<Rightarrow> Restore_Validate cv r)"


text \<open>
  Modelled from the spec: \<^verbatim>\<open>splitByComma\<close>, which the methods of \<^verbatim>\<open>Restore\<close> call, is
  not among the sources. The specification has the namespace string split on commas, and
  the doc comments of \<^verbatim>\<open>Restore.Sets\<close> and \<^verbatim>\<open>Restore.Bins\<close> say "splitting it using
  commas. Returns nil if empty", which is what the exported \<^verbatim>\<open>SplitByComma\<close> does.
\<close>

definition splitByComma :: "string \<Rightarrow> string list" where
  "splitByComma s = SplitByComma s"

text \<open>
  \<^verbatim>\<open>backup.RestoreNamespaceConfig\<close>: the two fields are pointers to strings that
  \<^verbatim>\<open>NamespaceConfig\<close> always sets; a nil result is \<open>None\<close>.
\<close>

record RestoreNamespaceConfig =
  Source :: string
  Destination :: string

definition NamespaceConfig :: "Restore \<Rightarrow> RestoreNamespaceConfig option" where
  "NamespaceConfig r =
     (case splitByComma (Namespace (rcommon r)) of
        [s] \<Rightarrow> Some \<lparr>Source = s, Destination = s\<rparr>
      | [s, d] \<Rightarrow> Some \<lparr>Source = s, Destination = d\<rparr>
      | _ \<Rightarrow> None)"

section \<open>Storage backends and ValidateStorages\<close>

text \<open>
  The declarations of \<^verbatim>\<open>models.AwsS3\<close>, \<^verbatim>\<open>models.GcpStorage\<close>, \<^verbatim>\<open>models.Local\<close> and
  \<^verbatim>\<open>models.StorageCommon\<close> and their \<^verbatim>\<open>Validate\<close> methods are not among the sources.
  \<^verbatim>\<open>AwsS3\<close> and \<^verbatim>\<open>GcpStorage\<close> are records of the identifying fields that
  \<^verbatim>\<open>ValidateStorages\<close> reads, \<^verbatim>\<open>Local\<close> and \<^verbatim>\<open>StorageCommon\<close> are type parameters, and
  the four \<^verbatim>\<open>Validate\<close> methods are parameters: \<open>vl\<close> for \<^verbatim>\<open>Local\<close>, \<open>vs3\<close> for
  \<^verbatim>\<open>AwsS3\<close>, \<open>vgcp\<close> for \<^verbatim>\<open>GcpStorage\<close>, \<open>vsc\<close> for \<^verbatim>\<open>StorageCommon\<close>. A pointer that
  may be nil is an \<open>option\<close>.
\<close>

record AwsS3 =
  BucketName :: string
  Region :: string
  Profile :: string
  Endpoint :: string

record GcpStorage =
  BucketName :: string
  KeyFile :: string
  Endpoint :: string

record 'sc AzureBlob =
  AccountName :: string
  AccountKey :: string
  TenantID :: string
  ClientID :: string
  ClientSecret :: string
  Endpoint :: string
  ContainerName :: string
  AccessTier :: string
  RestorePollDuration :: int
  RetryMaxAttempts :: int
  RetryDelay :: int
  RetryMaxDelay :: int
  BlockSize :: int
  UploadConcurrency :: int
  StorageCommon :: 'sc

text \<open>\<^verbatim>\<open>AzureBlob.Validate\<close>: internal validation for struct params.\<close>

definition AzureBlob_Validate ::
  "(bool \<Rightarrow> 'sc \<Rightarrow> error option) \<Rightarrow> bool \<Rightarrow> 'sc AzureBlob \<Rightarrow> error option" where
  "AzureBlob_Validate vsc isBackup a =
    (if ContainerName a = [] then Some (Errorf ''container name is required'')
     else if AzureBlob.Endpoint a = [] then Some (Errorf ''endpoint is required'')
     else if AzureBlob.RetryMaxAttempts a < 0
     then Some (Errorf ''retry maximum attempts must be non-negative'')
     else if RetryDelay a < 0 then Some (Errorf ''retry delay must be non-negative'')
     else if RetryMaxDelay a < 0 then Some (Errorf ''retry max delay must be non-negative'')
     else if isBackup \<and> BlockSize a < 1 then Some (Errorf ''block size can't be less than 1'')
     else if isBackup \<and> UploadConcurrency a < 1
     then Some (Errorf ''upload concurrency can't be less than 1'')
     else if \<not> isBackup \<and> RestorePollDuration a < 1
     then Some (Errorf ''restore poll duration can't be less than 1'')
     else (case vsc isBackup (StorageCommon a) of Some e \<Rightarrow> Some e | None \<Rightarrow> None))"

text \<open>\<^verbatim>\<open>AzureBlob.IsConfigured\<close>; a nil receiver is not configured.\<close>

definition AzureBlob_IsConfigured :: "'sc AzureBlob option \<Rightarrow> bool" where
  "AzureBlob_IsConfigured p =
     (case p of None \<Rightarrow> False
      | Some a \<Rightarrow> ContainerName a \<noteq> [] \<or> AccountName a \<noteq> [] \<or> AccountKey a \<noteq> [] \<or>
          AzureBlob.Endpoint a \<noteq> [] \<or> TenantID a \<noteq> [] \<or> ClientID a \<noteq> [] \<or>
          ClientSecret a \<noteq> [])"

text \<open>
  Modelled from the spec: \<^verbatim>\<open>AwsS3.IsConfigured\<close> and \<^verbatim>\<open>GcpStorage.IsConfigured\<close> are not
  among the sources. The specification makes \<^verbatim>\<open>IsConfigured\<close> true when at least one
  identifying field is non-empty; the identifying fields are those that the exported
  \<^verbatim>\<open>ValidateStorages\<close> tests in line, and a nil receiver is not configured, as for
  \<^verbatim>\<open>AzureBlob\<close>.
\<close>

definition AwsS3_IsConfigured :: "AwsS3 option \<Rightarrow> bool" where
  "AwsS3_IsConfigured p =
     (case p of None \<Rightarrow> False
      | Some a \<Rightarrow> AwsS3.BucketName a \<noteq> [] \<or> Region a \<noteq> [] \<or> Profile a \<noteq> [] \<or>
          AwsS3.Endpoint a \<noteq> [])"

definition GcpStorage_IsConfigured :: "GcpStorage option \<Rightarrow> bool" where
  "GcpStorage_IsConfigured p =
     (case p of None \<Rightarrow> False
      | Some a \<Rightarrow> GcpStorage.BucketName a \<noteq> [] \<or> KeyFile a \<noteq> [] \<or> GcpStorage.Endpoint a \<noteq> [])"

text \<open>
  The exported \<^verbatim>\<open>ValidateStorages\<close>, statement by statement; the counter \<^verbatim>\<open>count\<close>
  (\<open>count'\<close> here) is threaded
  through the three provider blocks, each of which either returns its wrapped validation
  error or passes the (possibly incremented) count on.
\<close>

definition localBlock :: "(bool \<Rightarrow> 'l \<Rightarrow> error option) \<Rightarrow> bool \<Rightarrow> 'l option \<Rightarrow> error option" where
  "localBlock vl isBackup local =
     (case local of None \<Rightarrow> None
      | Some l \<Rightarrow> (case vl isBackup l of
                     Some e \<Rightarrow> Some (Wrap ''failed to validate local storage'' e)
                   | None \<Rightarrow> None))"

definition awsS3Block ::
  "(bool \<Rightarrow> AwsS3 \<Rightarrow> error option) \<Rightarrow> bool \<Rightarrow> AwsS3 option \<Rightarrow> int \<Rightarrow> error + int" where
  "awsS3Block vs3 isBackup awsS3 count' =
     (case awsS3 of None \<Rightarrow> Inr count'
      | Some a \<Rightarrow>
          if AwsS3.BucketName a \<noteq> [] \<or> Region a \<noteq> [] \<or> Profile a \<noteq> [] \<or> AwsS3.Endpoint a \<noteq> []
          then (case vs3 isBackup a of
                  Some e \<Rightarrow> Inl (Wrap ''failed to validate aws s3'' e)
                | None \<Rightarrow> Inr (count' + 1))
          else Inr count')"

definition gcpBlock ::
  "(bool \<Rightarrow> GcpStorage \<Rightarrow> error option) \<Rightarrow> bool \<Rightarrow> GcpStorage option \<Rightarrow> int \<Rightarrow> error + int" where
  "gcpBlock vgcp isBackup gcpStorage count' =
     (case gcpStorage of None \<Rightarrow> Inr count'
      | Some g \<Rightarrow>
          if GcpStorage.BucketName g \<noteq> [] \<or> KeyFile g \<noteq> [] \<or> GcpStorage.Endpoint g \<noteq> []
          then (case vgcp isBackup g of
                  Some e \<Rightarrow> Inl (Wrap ''failed to validate gcp storage'' e)
                | None \<Rightarrow> Inr (count' + 1))
          else Inr count')"

definition azureBlock ::
  "(bool \<Rightarrow> 'sc \<Rightarrow> error option) \<Rightarrow> bool \<Rightarrow> 'sc AzureBlob option \<Rightarrow> int \<Rightarrow> error + int" where
  "azureBlock vsc isBackup azureBlob count' =
     (case azureBlob of None \<Rightarrow> Inr count'
      | Some a \<Rightarrow>
          if ContainerName a \<noteq> [] \<or> AccountName a \<noteq> [] \<or> AccountKey a \<noteq> [] \<or>
             AzureBlob.Endpoint a \<noteq> [] \<or> TenantID a \<noteq> [] \<or> ClientID a \<noteq> [] \<or>
             ClientSecret a \<noteq> []
          then (case AzureBlob_Validate vsc isBackup a of
                  Some e \<Rightarrow> Inl (Wrap ''failed to validate azure blob'' e)
                | None \<Rightarrow> Inr (count' + 1))
          else Inr count')"

definition ValidateStorages ::
  "(bool \<Rightarrow> 'l \<Rightarrow> error option) \<Rightarrow> (bool \<Rightarrow> AwsS3 \<Rightarrow> error option) \<Rightarrow>
   (bool \<Rightarrow> GcpStorage \<Rightarrow> error option) \<Rightarrow> (bool \<Rightarrow> 'sc \<Rightarrow> error option) \<Rightarrow>
   bool \<Rightarrow> AwsS3 option \<Rightarrow> GcpStorage option \<Rightarrow> 'sc AzureBlob option \<Rightarrow> 'l option \<Rightarrow>
   error option" where
  "ValidateStorages vl vs3 vgcp vsc isBackup awsS3 gcpStorage azureBlob local =
     (case localBlock vl isBackup local of
        Some e \<Rightarrow> Some e
      | None \<Rightarrow>
     (case awsS3Block vs3 isBackup awsS3 0 of
        Inl e \<Rightarrow> Some e
      | Inr c1 \<Rightarrow>
     (case gcpBlock vgcp isBackup gcpStorage c1 of
        Inl e \<Rightarrow> Some e
      | Inr c2 \<Rightarrow>
     (case azureBlock vsc isBackup azureBlob c2 of
        Inl e \<Rightarrow> Some e
      | Inr c3 \<Rightarrow>
          if c3 > 1 then Some (Errorf ''only one cloud provider can be configured'')
          else None))))"

text \<open>
  The unexported \<^verbatim>\<open>validateStorages\<close> of the same file: the same blocks, with the
  conditions replaced by calls of \<^verbatim>\<open>IsConfigured\<close>.
\<close>

definition providerBlock :: "bool \<Rightarrow> error option \<Rightarrow> string \<Rightarrow> int \<Rightarrow> error + int" where
  "providerBlock configured verdict label count' =
     (if configured
      then (case verdict of Some e \<Rightarrow> Inl (Wrap label e) | None \<Rightarrow> Inr (count' + 1))
      else Inr count')"

definition validateStorages ::
  "(bool \<Rightarrow> 'l \<Rightarrow> error option) \<Rightarrow> (bool \<Rightarrow> AwsS3 \<Rightarrow> error option) \<Rightarrow>
   (bool \<Rightarrow> GcpStorage \<Rightarrow> error option) \<Rightarrow> (bool \<Rightarrow> 'sc \<Rightarrow> error option) \<Rightarrow>
   bool \<Rightarrow> AwsS3 option \<Rightarrow> GcpStorage option \<Rightarrow> 'sc AzureBlob option \<Rightarrow> 'l option \<Rightarrow>
   error option" where
  "validateStorages vl vs3 vgcp vsc isBackup awsS3 gcpStorage azureBlob local =
     (case localBlock vl isBackup local of
        Some e \<Rightarrow> Some e
      | None \<Rightarrow>
     (case providerBlock (AwsS3_IsConfigured awsS3)
             (case awsS3 of Some a \<Rightarrow> vs3 isBackup a | None \<Rightarrow> None)
             ''failed to validate aws s3'' 0 of
        Inl e \<Rightarrow> Some e
      | Inr c1 \<Rightarrow>
     (case providerBlock (GcpStorage_IsConfigured gcpStorage)
             (case gcpStorage of Some g \<Rightarrow> vgcp isBackup g | None \<Rightarrow> None)
             ''failed to validate gcp storage'' c1 of
        Inl e \<Rightarrow> Some e
      | Inr c2 \<Rightarrow>
     (case providerBlock (AzureBlob_IsConfigured azureBlob)
             (case azureBlob of Some a \<Rightarrow> AzureBlob_Validate vsc isBackup a | None \<Rightarrow> None)
             ''failed to validate azure blob'' c2 of
        Inl e \<Rightarrow> Some e
      | Inr c3 \<Rightarrow>
          if c3 > 1 then Some (Errorf ''only one cloud provider can be configured'')
          else None))))"

subsection \<open>What the specification says of the storage check\<close>

text \<open>
  \<open>configuredCount\<close> is the number of cloud providers with an identifying field set;
  \<open>storagesValid\<close> says that Local, when present, and every configured cloud provider
  pass their own \<^verbatim>\<open>Validate\<close>.
\<close>

definition configuredCount :: "AwsS3 option \<Rightarrow> GcpStorage option \<Rightarrow> 'sc AzureBlob option \<Rightarrow> nat" where
  "configuredCount awsS3 gcpStorage azureBlob =
     (if AwsS3_IsConfigured awsS3 then 1 else 0) +
     (if GcpStorage_IsConfigured gcpStorage then 1 else 0) +
     (if AzureBlob_IsConfigured azureBlob then 1 else 0)"

definition storagesValid ::
  "(bool \<Rightarrow> 'l \<Rightarrow> error option) \<Rightarrow> (bool \<Rightarrow> AwsS3 \<Rightarrow> error option) \<Rightarrow>
   (bool \<Rightarrow> GcpStorage \<Rightarrow> error option) \<Rightarrow> (bool \<Rightarrow> 'sc \<Rightarrow> error option) \<Rightarrow>
   bool \<Rightarrow> AwsS3 option \<Rightarrow> GcpStorage option \<Rightarrow> 'sc AzureBlob option \<Rightarrow> 'l option \<Rightarrow> bool" where
  "storagesValid vl vs3 vgcp vsc isBackup awsS3 gcpStorage azureBlob local =
     ((case local of Some l \<Rightarrow> vl isBackup l = None | None \<Rightarrow> True) \<and>
      (AwsS3_IsConfigured awsS3 \<longrightarrow>
         (case awsS3 of Some a \<Rightarrow> vs3 isBackup a = None | None \<Rightarrow> True)) \<and>
      (GcpStorage_IsConfigured gcpStorage \<longrightarrow>
         (case gcpStorage of Some g \<Rightarrow> vgcp isBackup g = None | None \<Rightarrow> True)) \<and>
      (AzureBlob_IsConfigured azureBlob \<longrightarrow>
         (case azureBlob of Some a \<Rightarrow> AzureBlob_Validate vsc isBackup a = None | None \<Rightarrow> True)))"

text \<open>
  \<open>localValid\<close> says that Local, when present, passes its \<^verbatim>\<open>Validate\<close>. The verdict
  of a cloud provider is the result of its \<^verbatim>\<open>Validate\<close> when the provider is
  configured, and \<open>None\<close> when it is not: a provider that is not configured is not
  validated.
\<close>

definition localValid :: "(bool \<Rightarrow> 'l \<Rightarrow> error option) \<Rightarrow> bool \<Rightarrow> 'l option \<Rightarrow> bool" where
  "localValid vl isBackup local = (case local of Some l \<Rightarrow> vl isBackup l = None | None \<Rightarrow> True)"

definition awsS3Verdict ::
  "(bool \<Rightarrow> AwsS3 \<Rightarrow> error option) \<Rightarrow> bool \<Rightarrow> AwsS3 option \<Rightarrow> error option" where
  "awsS3Verdict vs3 isBackup awsS3 =
     (if AwsS3_IsConfigured awsS3
      then (case awsS3 of Some a \<Rightarrow> vs3 isBackup a | None \<Rightarrow> None) else None)"

definition gcpVerdict ::
  "(bool \<Rightarrow> GcpStorage \<Rightarrow> error option) \<Rightarrow> bool \<Rightarrow> GcpStorage option \<Rightarrow> error option" where
  "gcpVerdict vgcp isBackup gcpStorage =
     (if GcpStorage_IsConfigured gcpStorage
      then (case gcpStorage of Some g \<Rightarrow> vgcp isBackup g | None \<Rightarrow> None) else None)"

definition azureVerdict ::
  "(bool \<Rightarrow> 'sc \<Rightarrow> error option) \<Rightarrow> bool \<Rightarrow> 'sc AzureBlob option \<Rightarrow> error option" where
  "azureVerdict vsc isBackup azureBlob =
     (if AzureBlob_IsConfigured azureBlob
      then (case azureBlob of Some a \<Rightarrow> AzureBlob_Validate vsc isBackup a | None \<Rightarrow> None)
      else None)"

text \<open>
  The control flow that both functions share, on the outcome of the Local block, the
  three \<^verbatim>\<open>IsConfigured\<close> answers and the three validation verdicts.
\<close>

definition chain ::
  "error option \<Rightarrow> bool \<Rightarrow> error option \<Rightarrow> bool \<Rightarrow> error option \<Rightarrow> bool \<Rightarrow> error option \<Rightarrow>
   error option" where
  "chain lv c1 v1 c2 v2 c3 v3 =
    (case lv of
        Some e \<Rightarrow> Some e
      | None \<Rightarrow>
     (case providerBlock c1 v1 ''failed to validate aws s3'' 0 of
        Inl e \<Rightarrow> Some e
      | Inr k1 \<Rightarrow>
     (case providerBlock c2 v2 ''failed to validate gcp storage'' k1 of
        Inl e \<Rightarrow> Some e
      | Inr k2 \<Rightarrow>
     (case providerBlock c3 v3 ''failed to validate azure blob'' k2 of
        Inl e \<Rightarrow> Some e
      | Inr k3 \<Rightarrow>
          if k3 > 1 then Some (Errorf ''only one cloud provider can be configured'')
          else None))))"

text \<open>Two configured providers for concrete inputs: an S3 bucket and an Azure container.\<close>

definition s3Bucket :: AwsS3 where
  "s3Bucket = \<lparr>AwsS3.BucketName = ''bucket'', Region = [], Profile = [], AwsS3.Endpoint = []\<rparr>"

definition azureContainer :: "unit AzureBlob" where
  "azureContainer = \<lparr>AccountName = [], AccountKey = [], TenantID = [], ClientID = [],
     ClientSecret = [], AzureBlob.Endpoint = ''http://127.0.0.1:10000'',
     ContainerName = ''container'', AccessTier = [], RestorePollDuration = 1000,
     AzureBlob.RetryMaxAttempts = 0, RetryDelay = 0, RetryMaxDelay = 0, BlockSize = 1,
     UploadConcurrency = 1, StorageCommon = ()\<rparr>"

text \<open>
  Further concrete inputs: a \<^verbatim>\<open>Validate\<close> method that accepts everything, for the
  methods that are not among the sources; a GCP bucket; an Azure configuration with
  only the account name set; and the Azure container without its endpoint.
\<close>

definition accepting :: "bool \<Rightarrow> 'a \<Rightarrow> error option" where
  "accepting isBackup x = None"

definition gcsBucket :: GcpStorage where
  "gcsBucket = \<lparr>GcpStorage.BucketName = ''bucket'', KeyFile = [], GcpStorage.Endpoint = []\<rparr>"

definition azureAccountOnly :: "unit AzureBlob" where
  "azureAccountOnly = azureContainer\<lparr>AccountName := ''account'', ContainerName := [],
     AzureBlob.Endpoint := []\<rparr>"

definition azureNoEndpoint :: "unit AzureBlob" where
  "azureNoEndpoint = azureContainer\<lparr>AzureBlob.Endpoint := []\<rparr>"

section \<open>validatePartitionFilters\<close>

text \<open>
  \<^verbatim>\<open>aerospike.PartitionFilter\<close>, with the two fields that the validation reads. They
  are Go \<^verbatim>\<open>int\<close>s, 64 bits wide on the platforms the program is built for: a
  \<open>64 word\<close>, on which \<open>+\<close> and \<open>-\<close> wrap around as Go's do, and which \<open>sint\<close> reads
  as the two's complement number that Go compares and prints.
\<close>

record PartitionFilter =
  Begin :: "64 word"
  Count :: "64 word"

text \<open>
  The first loop. \<open>beginMap\<close> is a \<^verbatim>\<open>map[int]bool\<close>, read with the zero value
  \<^verbatim>\<open>false\<close> for a missing key: a function to \<open>bool\<close>. \<open>intervals\<close> grows by
  \<^verbatim>\<open>append\<close>. The loop returns at the first filter that fails. The end of an
  interval is the wrapping sum \<^verbatim>\<open>filter.Begin + filter.Count - 1\<close>.
\<close>

fun filterLoop ::
  "PartitionFilter list \<Rightarrow> (64 word \<Rightarrow> bool) \<Rightarrow> (64 word \<times> 64 word) list \<Rightarrow>
   error + (64 word \<times> 64 word) list" where
  "filterLoop [] beginMap intervals = Inr intervals"
| "filterLoop (f # fs) beginMap intervals =
     (if Count f = 1 then
        (if beginMap (Begin f) then Inl (DuplicateBegin (sint (Begin f)))
         else filterLoop fs (beginMap(Begin f := True)) intervals)
      else if sint (Count f) > 1 then
        filterLoop fs beginMap (intervals @ [(Begin f, Begin f + Count f - 1)])
      else Inl (InvalidCount (sint (Count f))))"

text \<open>
  The second loop, over the adjacent pairs of the sorted intervals:
  \<^verbatim>\<open>for i := 1; i < len(intervals); i++\<close>, with the signed comparison
  \<^verbatim>\<open>currBegin <= prevEnd\<close>.
\<close>

fun adjacentLoop :: "(64 word \<times> 64 word) list \<Rightarrow> error option" where
  "adjacentLoop (previous # current # rest) =
     (if sint (fst current) \<le> sint (snd previous)
      then Some (OverlappingIntervals (sint (fst previous)) (sint (snd previous))
                   (sint (fst current)) (sint (snd current)))
      else adjacentLoop (current # rest))"
| "adjacentLoop [previous] = None"
| "adjacentLoop [] = None"

text \<open>
  \<^verbatim>\<open>sort.Slice\<close> with the signed comparison of the begins: the intervals in ascending
  order of their begin. The library does not fix the order of intervals with equal
  begins; the model takes the insertion sort of the list library, and
  \<open>adjacentLoop_any_sorting\<close> below shows that, when no interval ends before it
  begins, the verdict is the same for every other arrangement that is sorted by begin.
\<close>

definition sortByBegin :: "(64 word \<times> 64 word) list \<Rightarrow> (64 word \<times> 64 word) list" where
  "sortByBegin intervals = sort_key (\<lambda>p. sint (fst p)) intervals"

definition validatePartitionFilters :: "PartitionFilter list \<Rightarrow> error option" where
  "validatePartitionFilters partitionFilters =
     (if length partitionFilters < 1 then None
      else (case filterLoop partitionFilters (\<lambda>k. False) [] of
              Inl e \<Rightarrow> Some e
            | Inr intervals \<Rightarrow> adjacentLoop (sortByBegin intervals)))"

subsection \<open>What the specification says of a filter list\<close>


definition rangeFilters :: "PartitionFilter list \<Rightarrow> PartitionFilter list" where
  "rangeFilters fs = filter (\<lambda>f. sint (Count f) > 1) fs"

definition meet :: "PartitionFilter \<Rightarrow> PartitionFilter \<Rightarrow> bool" where
  "meet f g = (sint (Begin f) \<le> sint (Begin g) + sint (Count g) - 1 \<and>
               sint (Begin g) \<le> sint (Begin f) + sint (Count f) - 1)"

fun noTwoMeet :: "PartitionFilter list \<Rightarrow> bool" where
  "noTwoMeet [] = True"
| "noTwoMeet (f # fs) = ((\<forall>g \<in> set fs. \<not> meet f g) \<and> noTwoMeet fs)"


text \<open>
  \<open>MaxInt\<close> is Go's \<^verbatim>\<open>math.MaxInt\<close>, the largest \<^verbatim>\<open>int\<close>. The end of a range
  filter fits when the integer \<open>begin + count - 1\<close> is at most \<open>MaxInt\<close>, so that the
  sum of the code does not wrap; \<open>endsFit\<close> says so of every range filter of a list.
\<close>

definition MaxInt :: int where
  "MaxInt = 9223372036854775807"

definition endFits :: "PartitionFilter \<Rightarrow> bool" where
  "endFits f = (sint (Begin f) + sint (Count f) - 1 \<le> MaxInt)"

definition endsFit :: "PartitionFilter list \<Rightarrow> bool" where
  "endsFit fs = (\<forall>f \<in> set (rangeFilters fs). endFits f)"







section \<open>parseLocalTimeToUTC\<close>

text \<open>
  The three regular expressions are sequences of \<^verbatim>\<open>\d\<close> (an ASCII digit) and literal
  characters between \<^verbatim>\<open>^\<close> and \<^verbatim>\<open>$\<close>, which in Go's syntax without flags are the
  beginning and the end of the text: \<open>MatchString pat s\<close> holds when \<open>s\<close> is, character
  by character, what \<open>pat\<close> describes.
\<close>

datatype pat = Digit | Lit char

fun MatchString :: "pat list \<Rightarrow> string \<Rightarrow> bool" where
  "MatchString [] [] = True"
| "MatchString (Digit # ps) (c # cs) =
     ((48::nat) \<le> of_char c \<and> (of_char c :: nat) \<le> 57 \<and> MatchString ps cs)"
| "MatchString (Lit x # ps) (c # cs) = (c = x \<and> MatchString ps cs)"
| "MatchString ps cs = False"

definition expTimeOnly :: "pat list" where
  "expTimeOnly = [Digit, Digit, Lit CHR '':'', Digit, Digit, Lit CHR '':'', Digit, Digit]"

definition expDateOnly :: "pat list" where
  "expDateOnly =
     [Digit, Digit, Digit, Digit, Lit CHR ''-'', Digit, Digit, Lit CHR ''-'', Digit, Digit]"

definition expDateTime :: "pat list" where
  "expDateTime =
     [Digit, Digit, Digit, Digit, Lit CHR ''-'', Digit, Digit, Lit CHR ''-'', Digit, Digit,
      Lit CHR ''_'', Digit, Digit, Lit CHR '':'', Digit, Digit, Lit CHR '':'', Digit, Digit]"

text \<open>
  What the function takes from its environment, through Go's \<^verbatim>\<open>time\<close> package:
  \<^item> \<open>LoadLocal\<close>: \<^verbatim>\<open>time.LoadLocation("Local")\<close>, the system's time zone or an error;
  \<^item> \<open>Today loc\<close>: \<^verbatim>\<open>time.Now().In(loc).Format("2006-01-02")\<close>, the current date there;
  \<^item> \<open>ParseInLocation v loc\<close>: \<^verbatim>\<open>time.ParseInLocation("2006-01-02_15:04:05", v, loc)\<close>;
  \<^item> \<open>ToUTC t\<close>: \<^verbatim>\<open>t.UTC()\<close>.
  The types of locations and of times are parameters.
\<close>

record ('loc, 'time) timeEnv =
  LoadLocal :: "error + 'loc"
  Today :: "'loc \<Rightarrow> string"
  ParseInLocation :: "string \<Rightarrow> 'loc \<Rightarrow> error + 'time"
  ToUTC :: "'time \<Rightarrow> 'time"

definition parseLocalTimeToUTC :: "('loc, 'time) timeEnv \<Rightarrow> string \<Rightarrow> error + 'time" where
  "parseLocalTimeToUTC env timeString =
     (case LoadLocal env of
        Inl err \<Rightarrow> Inl (Wrap ''failed to load timezone location'' err)
      | Inr location \<Rightarrow>
          (case (if MatchString expDateTime timeString then Some timeString
                 else if MatchString expTimeOnly timeString
                 then Some (Today env location @ ''_'' @ timeString)
                 else if MatchString expDateOnly timeString
                 then Some (timeString @ ''_00:00:00'')
                 else None) of
             None \<Rightarrow> Inl (Errorf (''unknown time format: '' @ timeString))
           | Some validTime \<Rightarrow>
               (case ParseInLocation env validTime location of
                  Inl err \<Rightarrow> Inl (Wrap (''failed to parse time '' @ timeString) err)
                | Inr localTime \<Rightarrow> Inr (ToUTC env localTime))))"

subsection \<open>Valid field values\<close>

text \<open>
  The field values that Go's \<^verbatim>\<open>time.Parse\<close> accepts in a string of the form
  \<^verbatim>\<open>YYYY-MM-DD_HH:MM:SS\<close>: a month from 1 to 12, a day from 1 to the length of the
  month in that year, an hour below 24, minutes and seconds below 60. An environment
  \<open>rejectsInvalid\<close> when its \<open>ParseInLocation\<close> fails on every string of that form
  whose field values are not valid.
\<close>

definition number :: "string \<Rightarrow> nat" where
  "number s = foldl (\<lambda>n c. 10 * n + (of_char c - 48)) 0 s"

definition daysIn :: "nat \<Rightarrow> nat \<Rightarrow> nat" where
  "daysIn month year =
     (if month = 2
      then (if year mod 4 = 0 \<and> (year mod 100 \<noteq> 0 \<or> year mod 400 = 0) then 29 else 28)
      else if month = 4 \<or> month = 6 \<or> month = 9 \<or> month = 11 then 30 else 31)"

definition validFields :: "string \<Rightarrow> bool" where
  "validFields v =
     (let year = number (take 4 v); month = number (take 2 (drop 5 v));
          day = number (take 2 (drop 8 v)); hour = number (take 2 (drop 11 v));
          minute = number (take 2 (drop 14 v)); second = number (take 2 (drop 17 v))
      in 1 \<le> month \<and> month \<le> 12 \<and> 1 \<le> day \<and> day \<le> daysIn month year \<and>
         hour < 24 \<and> minute < 60 \<and> second < 60)"

definition rejectsInvalid :: "('loc, 'time) timeEnv \<Rightarrow> bool" where
  "rejectsInvalid env =
     (\<forall>v loc. MatchString expDateTime v \<and> \<not> validFields v \<longrightarrow>
        isl (ParseInLocation env v loc))"

text \<open>
  An environment for concrete inputs: the local time zone is UTC, so that a time is its
  wall-clock string and converting it to UTC changes nothing; today is 2024-03-15; the
  parser accepts the strings with valid field values.
\<close>

definition utcEnv :: "(unit, string) timeEnv" where
  "utcEnv = \<lparr>LoadLocal = Inr (),
     Today = (\<lambda>loc. ''2024-03-15''),
     ParseInLocation = (\<lambda>v loc. if validFields v then Inr v
                                 else Inl (Errorf ''parsing time: value out of range'')),
     ToUTC = (\<lambda>t. t)\<rparr>"

section \<open>Assembling the backup configuration\<close>

text \<open>The methods of \<^verbatim>\<open>Backup\<close> that split its comma-separated lists.\<close>

definition Backup_Nodes :: "Backup \<Rightarrow> string list" where
  "Backup_Nodes b = SplitByComma (NodeList b)"

definition Backup_Sets :: "Backup \<Rightarrow> string list" where
  "Backup_Sets b = SplitByComma (SetList (common b))"

definition Backup_Bins :: "Backup \<Rightarrow> string list" where
  "Backup_Bins b = SplitByComma (BinList (common b))"

text \<open>
  \<^verbatim>\<open>Backup.Racks\<close>: the loop over the tokens of the rack list, \<open>atoi\<close> being
  \<^verbatim>\<open>strconv.Atoi\<close> of Go's library.
\<close>

definition MaxRack :: int where
  "MaxRack = 1000000"

fun racksLoop :: "(string \<Rightarrow> error + int) \<Rightarrow> string list \<Rightarrow> int list \<Rightarrow> error + int list" where
  "racksLoop atoi [] racksIntSlice = Inr racksIntSlice"
| "racksLoop atoi (tok # toks) racksIntSlice =
     (case atoi tok of
        Inl err \<Rightarrow> Inl (Wrap ''failed to parse racks'' err)
      | Inr rackID \<Rightarrow>
          if rackID < 0 then Inl (RackIdNegative rackID)
          else if rackID > MaxRack then Inl (RackIdTooLarge rackID MaxRack)
          else racksLoop atoi toks (racksIntSlice @ [rackID]))"

definition Backup_Racks :: "(string \<Rightarrow> error + int) \<Rightarrow> Backup \<Rightarrow> error + int list" where
  "Backup_Racks atoi b = racksLoop atoi (SplitByComma (RackList b)) []"

text \<open>
  \<^verbatim>\<open>resolveFilters\<close> and \<^verbatim>\<open>Backup.PartitionFilters\<close>. The three constructors of
  partition filters belong to the backup library and are parameters: \<open>afterDigest\<close> for
  \<^verbatim>\<open>backup.NewPartitionFilterAfterDigest\<close>, \<open>parseList\<close> for
  \<^verbatim>\<open>backup.ParsePartitionFilterListString\<close>, \<open>filterAll\<close> for
  \<^verbatim>\<open>backup.NewPartitionFilterAll\<close>.
\<close>

definition resolveFilters ::
  "(string \<Rightarrow> string \<Rightarrow> error + PartitionFilter) \<Rightarrow>
   (string \<Rightarrow> string \<Rightarrow> error + PartitionFilter list) \<Rightarrow> PartitionFilter \<Rightarrow> Backup \<Rightarrow>
   error + PartitionFilter list" where
  "resolveFilters afterDigest parseList filterAll b =
     (if AfterDigest b \<noteq> [] then
        (case afterDigest (Namespace (common b)) (AfterDigest b) of
           Inl err \<Rightarrow> Inl (Wrap ''failed to parse after digest filter'' err)
         | Inr f \<Rightarrow> Inr [f])
      else if PartitionList b \<noteq> [] then
        (case parseList (Namespace (common b)) (PartitionList b) of
           Inl err \<Rightarrow> Inl (Wrap ''failed to parse partition filter list'' err)
         | Inr filters \<Rightarrow> Inr filters)
      else Inr [filterAll])"

definition Backup_PartitionFilters ::
  "(string \<Rightarrow> string \<Rightarrow> error + PartitionFilter) \<Rightarrow>
   (string \<Rightarrow> string \<Rightarrow> error + PartitionFilter list) \<Rightarrow> PartitionFilter \<Rightarrow> Backup \<Rightarrow>
   error + PartitionFilter list" where
  "Backup_PartitionFilters afterDigest parseList filterAll b =
     (case resolveFilters afterDigest parseList filterAll b of
        Inl err \<Rightarrow> Inl err
      | Inr pf \<Rightarrow>
          (case validatePartitionFilters pf of
             Some err \<Rightarrow> Inl (Wrap ''failed to validate partition filters'' err)
           | None \<Rightarrow> Inr pf))"

text \<open>
  \<^verbatim>\<open>Backup.ScanPolicy\<close>. The record has the fields of \<^verbatim>\<open>aerospike.ScanPolicy\<close> that the
  method sets, under the prefix \<open>sp\<close>; the durations are in nanoseconds (a millisecond
  is 1000000 of them). The default policy \<^verbatim>\<open>aerospike.NewScanPolicy()\<close> and the parser
  \<^verbatim>\<open>aerospike.ExpFromBase64\<close> are parameters.
\<close>

datatype ReplicaPolicy = MASTER | MASTER_PROLES | RANDOM | SEQUENCE | PREFER_RACK

record 'exp ScanPolicy =
  spMaxRecords :: int
  spMaxRetries :: int
  spSleepBetweenRetries :: "64 word"
  spTotalTimeout :: "64 word"
  spSocketTimeout :: "64 word"
  spReplicaPolicy :: ReplicaPolicy
  spIncludeBinData :: bool
  spFilterExpression :: "'exp option"

definition Backup_ScanPolicy ::
  "'exp ScanPolicy \<Rightarrow> (string \<Rightarrow> error + 'exp) \<Rightarrow> Backup \<Rightarrow> error + 'exp ScanPolicy" where
  "Backup_ScanPolicy newScanPolicy expFromBase64 b =
     (let p = newScanPolicy\<lparr>spMaxRecords := MaxRecords b, spMaxRetries := MaxRetries b,
                spSleepBetweenRetries := SleepBetweenRetries b * 1000000,
                spTotalTimeout := TotalTimeout (common b) * 1000000,
                spSocketTimeout := SocketTimeout (common b) * 1000000\<rparr>;
          p = (if PreferRacks b \<noteq> [] then p\<lparr>spReplicaPolicy := PREFER_RACK\<rparr> else p);
          p = (if RackList b \<noteq> [] \<or> NodeList b \<noteq> [] then p\<lparr>spReplicaPolicy := MASTER\<rparr> else p);
          p = (if NoBins b then p\<lparr>spIncludeBinData := False\<rparr> else p)
      in if FilterExpression b \<noteq> [] then
           (case expFromBase64 (FilterExpression b) of
              Inl err \<Rightarrow> Inl (Wrap ''failed to parse filter expression'' err)
            | Inr exp \<Rightarrow> Inr (p\<lparr>spFilterExpression := Some exp\<rparr>))
         else Inr p)"

text \<open>\<^verbatim>\<open>ModifiedBeforeTime\<close> and \<^verbatim>\<open>ModifiedAfterTime\<close>.\<close>

definition ModifiedBeforeTime :: "('loc, 'time) timeEnv \<Rightarrow> Backup \<Rightarrow> error + 'time" where
  "ModifiedBeforeTime env b = parseLocalTimeToUTC env (ModifiedBefore b)"

definition ModifiedAfterTime :: "('loc, 'time) timeEnv \<Rightarrow> Backup \<Rightarrow> error + 'time" where
  "ModifiedAfterTime env b = parseLocalTimeToUTC env (ModifiedAfter b)"

text \<open>
  \<^verbatim>\<open>backup.ConfigBackup\<close>, the configuration that the backup library takes, with the
  fields that \<^verbatim>\<open>newBackupConfig\<close> sets. Isabelle's record fields share one name space,
  so they carry the prefix \<open>cfg\<close> here: \<open>cfgFileLimit\<close> is \<^verbatim>\<open>FileLimit\<close>, and so on.
  The compression and encryption policies and the secret agent configuration are values
  of the backup library, of types that are parameters.
\<close>

record ('exp, 'cp, 'ep, 'sa, 'time) ConfigBackup =
  cfgNamespace :: string
  cfgSetList :: "string list"
  cfgBinList :: "string list"
  cfgNoRecords :: bool
  cfgNoIndexes :: bool
  cfgRecordsPerSecond :: int
  cfgFileLimit :: "64 word"
  cfgNoUDFs :: bool
  cfgParallelWrite :: int
  cfgParallelRead :: int
  cfgBandwidth :: "64 word"
  cfgCompact :: bool
  cfgNoTTLOnly :: bool
  cfgOutputFilePrefix :: string
  cfgMetricsEnabled :: bool
  cfgRackList :: "int list"
  cfgStateFile :: string
  cfgContinue :: bool
  cfgPageSize :: int
  cfgNodeList :: "string list"
  cfgPartitionFilters :: "PartitionFilter list"
  cfgScanPolicy :: "'exp ScanPolicy option"
  cfgCompressionPolicy :: 'cp
  cfgEncryptionPolicy :: 'ep
  cfgSecretAgentConfig :: 'sa
  cfgModBefore :: "'time option"
  cfgModAfter :: "'time option"

text \<open>
  \<^verbatim>\<open>BackupServiceConfig\<close>, with the members that \<^verbatim>\<open>newBackupConfig\<close> reads. For
  \<^verbatim>\<open>Compression\<close>, \<^verbatim>\<open>Encryption\<close> and \<^verbatim>\<open>SecretAgent\<close> the record holds what their
  methods \<^verbatim>\<open>Policy()\<close>, \<^verbatim>\<open>Policy()\<close> and \<^verbatim>\<open>Config()\<close> return, these methods not being
  among the sources.
\<close>

record ('cp, 'ep, 'sa) BackupServiceConfig =
  svcBackup :: "Backup option"
  svcCompressionPolicy :: 'cp
  svcEncryptionPolicy :: 'ep
  svcSecretAgentConfig :: 'sa

definition StdPlaceholder :: string where
  "StdPlaceholder = ''-''"

text \<open>
  \<^verbatim>\<open>IsStdout\<close> checks if the backup operation should write to stdout, by verifying that
  Backup is non-nil and OutputFile is StdPlaceholder.
\<close>

definition IsStdout :: "('cp, 'ep, 'sa) BackupServiceConfig \<Rightarrow> bool" where
  "IsStdout p = (case svcBackup p of Some b \<Rightarrow> OutputFile b = StdPlaceholder | None \<Rightarrow> False)"

text \<open>
  What \<^verbatim>\<open>newBackupConfig\<close> takes from the libraries: the default configuration
  \<^verbatim>\<open>backup.NewDefaultBackupConfig()\<close>, \<^verbatim>\<open>path.Join\<close>, \<^verbatim>\<open>strconv.Atoi\<close>, the three
  constructors of partition filters, the default scan policy, the parser of filter
  expressions, and the environment of the time package.
\<close>

record ('exp, 'cp, 'ep, 'sa, 'loc, 'time) libraries =
  NewDefaultBackupConfig :: "('exp, 'cp, 'ep, 'sa, 'time) ConfigBackup"
  pathJoin :: "string \<Rightarrow> string \<Rightarrow> string"
  Atoi :: "string \<Rightarrow> error + int"
  NewPartitionFilterAfterDigest :: "string \<Rightarrow> string \<Rightarrow> error + PartitionFilter"
  ParsePartitionFilterListString :: "string \<Rightarrow> string \<Rightarrow> error + PartitionFilter list"
  NewPartitionFilterAll :: PartitionFilter
  NewScanPolicy :: "'exp ScanPolicy"
  ExpFromBase64 :: "string \<Rightarrow> error + 'exp"
  timeLib :: "('loc, 'time) timeEnv"

text \<open>
  \<^verbatim>\<open>newBackupConfig\<close>, in the order of its statements. The first block copies the
  fields; \<open>stdoutOverride\<close> is "Reconfigure params for stdout or single file backup";
  the statements that can fail return their error, the others pass the configuration
  on. A nil \<^verbatim>\<open>config.Backup\<close> is dereferenced by the first statement.
\<close>

definition copyFields ::
  "Backup \<Rightarrow> ('exp, 'cp, 'ep, 'sa, 'time) ConfigBackup \<Rightarrow> ('exp, 'cp, 'ep, 'sa, 'time) ConfigBackup" where
  "copyFields b c =
     c\<lparr>cfgNamespace := Namespace (common b),
       cfgSetList := Backup_Sets b,
       cfgBinList := Backup_Bins b,
       cfgNoRecords := NoRecords (common b),
       cfgNoIndexes := NoIndexes (common b),
       cfgRecordsPerSecond := RecordsPerSecond (common b),
       cfgFileLimit := FileLimit b * 1024 * 1024,
       cfgNoUDFs := NoUDFs (common b),
       cfgParallelWrite := Parallel (common b),
       cfgParallelRead := Parallel (common b),
       cfgBandwidth := Bandwidth (common b) * 1024 * 1024,
       cfgCompact := Compact b,
       cfgNoTTLOnly := NoTTLOnly b,
       cfgOutputFilePrefix := OutputFilePrefix b,
       cfgMetricsEnabled := True\<rparr>"

definition stdoutOverride ::
  "('cp, 'ep, 'sa) BackupServiceConfig \<Rightarrow> Backup \<Rightarrow> ('exp, 'cp, 'ep, 'sa, 'time) ConfigBackup \<Rightarrow>
   ('exp, 'cp, 'ep, 'sa, 'time) ConfigBackup" where
  "stdoutOverride config b c =
     (if IsStdout config \<or> OutputFile b \<noteq> []
      then c\<lparr>cfgFileLimit := 0, cfgParallelWrite := 1\<rparr>
      else c)"

definition rackStep ::
  "(string \<Rightarrow> error + int) \<Rightarrow> Backup \<Rightarrow> ('exp, 'cp, 'ep, 'sa, 'time) ConfigBackup \<Rightarrow>
   error + ('exp, 'cp, 'ep, 'sa, 'time) ConfigBackup" where
  "rackStep atoi b c =
     (if RackList b \<noteq> [] then
        (case Backup_Racks atoi b of
           Inl err \<Rightarrow> Inl err
         | Inr list \<Rightarrow> Inr (c\<lparr>cfgRackList := list\<rparr>))
      else Inr c)"

definition stateSteps ::
  "(string \<Rightarrow> string \<Rightarrow> string) \<Rightarrow> Backup \<Rightarrow> ('exp, 'cp, 'ep, 'sa, 'time) ConfigBackup \<Rightarrow>
   ('exp, 'cp, 'ep, 'sa, 'time) ConfigBackup" where
  "stateSteps join b c =
     (let c = (if Continue b \<noteq> []
               then c\<lparr>cfgStateFile := join (Directory (common b)) (Continue b),
                      cfgContinue := True, cfgPageSize := ScanPageSize b\<rparr>
               else c);
          c = (if StateFileDst b \<noteq> []
               then c\<lparr>cfgStateFile := join (Directory (common b)) (StateFileDst b),
                      cfgPageSize := ScanPageSize b\<rparr>
               else c)
      in if NodeList b \<noteq> [] then c\<lparr>cfgNodeList := Backup_Nodes b\<rparr> else c)"

definition policySteps ::
  "('exp, 'cp, 'ep, 'sa, 'loc, 'time) libraries \<Rightarrow> ('cp, 'ep, 'sa) BackupServiceConfig \<Rightarrow> Backup \<Rightarrow>
   ('exp, 'cp, 'ep, 'sa, 'time) ConfigBackup \<Rightarrow> error + ('exp, 'cp, 'ep, 'sa, 'time) ConfigBackup" where
  "policySteps lib config b c =
     (case Backup_PartitionFilters (NewPartitionFilterAfterDigest lib)
             (ParsePartitionFilterListString lib) (NewPartitionFilterAll lib) b of
        Inl err \<Rightarrow> Inl err
      | Inr pf \<Rightarrow>
          (case Backup_ScanPolicy (NewScanPolicy lib) (ExpFromBase64 lib) b of
             Inl err \<Rightarrow> Inl err
           | Inr sp \<Rightarrow>
               Inr (c\<lparr>cfgPartitionFilters := pf, cfgScanPolicy := Some sp,
                      cfgCompressionPolicy := svcCompressionPolicy config,
                      cfgEncryptionPolicy := svcEncryptionPolicy config,
                      cfgSecretAgentConfig := svcSecretAgentConfig config\<rparr>)))"

definition modBeforeStep ::
  "('loc, 'time) timeEnv \<Rightarrow> Backup \<Rightarrow> ('exp, 'cp, 'ep, 'sa, 'time) ConfigBackup \<Rightarrow>
   error + ('exp, 'cp, 'ep, 'sa, 'time) ConfigBackup" where
  "modBeforeStep env b c =
     (if ModifiedBefore b \<noteq> [] then
        (case ModifiedBeforeTime env b of
           Inl err \<Rightarrow> Inl (Wrap ''failed to parse modified before date'' err)
         | Inr modBeforeTime \<Rightarrow> Inr (c\<lparr>cfgModBefore := Some modBeforeTime\<rparr>))
      else Inr c)"

definition modAfterStep ::
  "('loc, 'time) timeEnv \<Rightarrow> Backup \<Rightarrow> ('exp, 'cp, 'ep, 'sa, 'time) ConfigBackup \<Rightarrow>
   error + ('exp, 'cp, 'ep, 'sa, 'time) ConfigBackup" where
  "modAfterStep env b c =
     (if ModifiedAfter b \<noteq> [] then
        (case ModifiedAfterTime env b of
           Inl err \<Rightarrow> Inl (Wrap ''failed to parse modified after date'' err)
         | Inr modAfterTime \<Rightarrow> Inr (c\<lparr>cfgModAfter := Some modAfterTime\<rparr>))
      else Inr c)"

definition newBackupConfig ::
  "('exp, 'cp, 'ep, 'sa, 'loc, 'time) libraries \<Rightarrow> ('cp, 'ep, 'sa) BackupServiceConfig \<Rightarrow>
   error + ('exp, 'cp, 'ep, 'sa, 'time) ConfigBackup" where
  "newBackupConfig lib config =
     (case svcBackup config of
        None \<Rightarrow> Inl (Panic ''invalid memory address or nil pointer dereference'')
      | Some b \<Rightarrow>
          (case rackStep (Atoi lib) b
                  (stdoutOverride config b (copyFields b (NewDefaultBackupConfig lib))) of
             Inl err \<Rightarrow> Inl err
           | Inr c1 \<Rightarrow>
               (case policySteps lib config b (stateSteps (pathJoin lib) b c1) of
                  Inl err \<Rightarrow> Inl err
                | Inr c2 \<Rightarrow>
                    (case modBeforeStep (timeLib lib) b c2 of
                       Inl err \<Rightarrow> Inl err
                     | Inr c3 \<Rightarrow> modAfterStep (timeLib lib) b c3))))"

text \<open>
  Libraries and a service configuration for concrete inputs: an all-zero default
  configuration and scan policy, a \<^verbatim>\<open>path.Join\<close> for two clean relative names, parsers
  that reject everything (they are not reached), "all partitions" as the filter from 0
  with count 4096, and the time environment \<open>utcEnv\<close>; the configuration of the
  repository's stdout test, parallel = 8 and file limit 1000 written to stdout.
\<close>

definition zeroScanPolicy :: "unit ScanPolicy" where
  "zeroScanPolicy = \<lparr>spMaxRecords = 0, spMaxRetries = 0, spSleepBetweenRetries = 0,
     spTotalTimeout = 0, spSocketTimeout = 0, spReplicaPolicy = SEQUENCE,
     spIncludeBinData = True, spFilterExpression = None\<rparr>"

definition zeroConfig :: "(unit, unit, unit, unit, string) ConfigBackup" where
  "zeroConfig = \<lparr>cfgNamespace = [], cfgSetList = [], cfgBinList = [], cfgNoRecords = False,
     cfgNoIndexes = False, cfgRecordsPerSecond = 0, cfgFileLimit = 0, cfgNoUDFs = False,
     cfgParallelWrite = 0, cfgParallelRead = 0, cfgBandwidth = 0, cfgCompact = False,
     cfgNoTTLOnly = False, cfgOutputFilePrefix = [], cfgMetricsEnabled = False,
     cfgRackList = [], cfgStateFile = [], cfgContinue = False, cfgPageSize = 0,
     cfgNodeList = [], cfgPartitionFilters = [], cfgScanPolicy = None,
     cfgCompressionPolicy = (), cfgEncryptionPolicy = (), cfgSecretAgentConfig = (),
     cfgModBefore = None, cfgModAfter = None\<rparr>"

definition testLibraries :: "(unit, unit, unit, unit, unit, string) libraries" where
  "testLibraries = \<lparr>NewDefaultBackupConfig = zeroConfig,
     pathJoin = (\<lambda>dir name. dir @ ''/'' @ name),
     Atoi = (\<lambda>s. Inl (Errorf ''invalid syntax'')),
     NewPartitionFilterAfterDigest = (\<lambda>ns digest. Inl (Errorf ''invalid digest'')),
     ParsePartitionFilterListString = (\<lambda>ns list. Inl (Errorf ''invalid partition filter'')),
     NewPartitionFilterAll = \<lparr>Begin = 0, Count = 4096\<rparr>,
     NewScanPolicy = zeroScanPolicy,
     ExpFromBase64 = (\<lambda>s. Inl (Errorf ''invalid expression'')),
     timeLib = utcEnv\<rparr>"

definition stdoutService :: "(unit, unit, unit) BackupServiceConfig" where
  "stdoutService = \<lparr>svcBackup =
       Some (zeroBackup\<lparr>common := zeroCommon\<lparr>Parallel := 8\<rparr>, OutputFile := StdPlaceholder,
               FileLimit := 1000\<rparr>),
     svcCompressionPolicy = (), svcEncryptionPolicy = (), svcSecretAgentConfig = ()\<rparr>"

text \<open>
  \<open>kept c c'\<close>: the file limit and the two parallelism parameters are the same in
  \<open>c'\<close> as in \<open>c\<close>.
\<close>

definition kept :: "('exp, 'cp, 'ep, 'sa, 'time) ConfigBackup \<Rightarrow> ('exp, 'cp, 'ep, 'sa, 'time) ConfigBackup \<Rightarrow> bool" where
  "kept c c' = (cfgFileLimit c' = cfgFileLimit c \<and> cfgParallelWrite c' = cfgParallelWrite c \<and>
     cfgParallelRead c' = cfgParallelRead c)"

section \<open>Properties of Backup.Validate\<close>

lemma firstViolation_if:
  "firstViolation ((if c then Some e else None) # cs) = (if c then Some e else firstViolation cs)"
  by simp

lemma firstViolation_case:
  "firstViolation ((case x of Some e \<Rightarrow> Some (f e) | None \<Rightarrow> None) # cs) =
     (case x of Some e \<Rightarrow> Some (f e) | None \<Rightarrow> firstViolation cs)"
  by (simp split: option.split)

lemma firstViolation_Cons:
  "firstViolation (x # cs) = (case x of Some e \<Rightarrow> Some e | None \<Rightarrow> firstViolation cs)"
  by (simp split: option.split)

lemma firstViolation_single: "firstViolation [x] = x"
  by (cases x) simp_all

lemma firstViolation_checkEstimate:
  "firstViolation (checkEstimate b # cs) =
    (if Estimate b then
       (if PartitionList b \<noteq> [] \<or> NodeList b \<noteq> [] \<or> AfterDigest b \<noteq> [] \<or>
           FilterExpression b \<noteq> [] \<or> ModifiedAfter b \<noteq> [] \<or> ModifiedBefore b \<noteq> [] \<or>
           NoTTLOnly b
        then Some (Errorf ''estimate with any filter is not allowed'')
        else if OutputFile b \<noteq> [] \<or> Directory (common b) \<noteq> []
        then Some (Errorf ''estimate with output-file or directory is not allowed'')
        else if EstimateSamples b < 0
        then Some (Errorf ''estimate with estimate-samples < 0 is not allowed'')
        else firstViolation cs)
     else firstViolation cs)"
  unfolding checkEstimate_def by simp

text \<open>The chain of early returns computes the first violated check of the list.\<close>

lemma Backup_Validate_firstViolation: "Backup_Validate cv b = firstViolation (checks cv b)"
  unfolding Backup_Validate_def checks_def checkOutputTarget_def checkFileOrDirectory_def
    checkPrefixSafety_def checkPrefixOrFile_def checkContinueStateFile_def
    checkContinueRemoveFiles_def checkMaxRecords_def
  by (simp only: firstViolation_if firstViolation_case firstViolation_checkEstimate
      firstViolation_single firstViolation_Cons [of "validateSingleFilter b"])

lemma firstViolation_earliest:
  "i < length cs \<Longrightarrow> cs ! i = Some e \<Longrightarrow> (\<forall>j<i. cs ! j = None) \<Longrightarrow>
     firstViolation cs = Some e"
proof (induction cs arbitrary: i rule: firstViolation.induct)
  case 1
  then show ?case by simp
next
  case (2 cs)
  then obtain k where "i = Suc k" by (cases i) auto
  with 2 show ?case by fastforce
next
  case (3 e' cs)
  then show ?case by (cases i) auto
qed

text \<open>
  Claim C2. Whatever number of its constraints a Backup value violates, Backup.Validate
  returns one error, that of the earliest violated check in the order: (1) output-target
  presence, (2) output-file versus directory, (3) output-file-prefix character safety,
  (4) output-file-prefix versus output-file, (5) single filter type, (6) continue versus
  state-file-dst, (7) continue versus remove-files, (8) max-records requires parallel = 1,
  (9) the estimate-mode block, (10) Common.Validate. If check number \<open>i\<close> of the list
  fails with \<open>e\<close> and every check before it passes, the result is \<open>e\<close>, whatever the
  later checks say.
\<close>

theorem Backup_Validate_returns_earliest_violation:
  assumes "i < length (checks cv b)"
    and "checks cv b ! i = Some e"
    and "\<forall>j<i. checks cv b ! j = None"
  shows "Backup_Validate cv b = Some e"
  using assms by (simp only: Backup_Validate_firstViolation firstViolation_earliest)

text \<open>
  At a Backup with both a directory and an output file (check 2) and with both continue
  and state-file-dst (check 6), the error is that of check 2.
\<close>

theorem Backup_Validate_returns_earliest_violation_witness:
  "checks (\<lambda>c. None)
      (zeroBackup\<lparr>common := zeroCommon\<lparr>Directory := ''dir''\<rparr>, OutputFile := ''out.asb'',
         Continue := ''state'', StateFileDst := ''state''\<rparr>) ! 5
     = Some (Errorf ''continue and state-file-dst are mutually exclusive'') \<and>
   Backup_Validate (\<lambda>c. None)
      (zeroBackup\<lparr>common := zeroCommon\<lparr>Directory := ''dir''\<rparr>, OutputFile := ''out.asb'',
         Continue := ''state'', StateFileDst := ''state''\<rparr>)
     = Some (Errorf ''only one of output-file and directory may be configured at the same time'')"
  using Backup_Validate_returns_earliest_violation [of 1 "\<lambda>c. None"
      "zeroBackup\<lparr>common := zeroCommon\<lparr>Directory := ''dir''\<rparr>, OutputFile := ''out.asb'',
         Continue := ''state'', StateFileDst := ''state''\<rparr>"
      "Errorf ''only one of output-file and directory may be configured at the same time''"]
  by (simp add: checks_def checkOutputTarget_def checkFileOrDirectory_def
      checkContinueStateFile_def zeroBackup_def zeroCommon_def)

text \<open>
  Claim C1, at the rack list. In estimate mode with a rack list as the only filter, no
  check of Backup.Validate fails: the estimate-mode block tests partition-list, node-list,
  after-digest, filter-expression, modified-after, modified-before and no-ttl-only, and
  not rack-list, so the result is whatever Common.Validate returns, and it is no error
  when Common.Validate accepts.
\<close>

theorem Backup_Validate_estimate_rack_list:
  "Backup_Validate cv estimateRackList = cv (common estimateRackList) \<and>
   Backup_Validate (\<lambda>c. None) estimateRackList = None \<and>
   validateSingleFilter (estimateRackList\<lparr>NodeList := ''n1''\<rparr>) =
     Some (Errorf ''only one of node-list or rack-list can be configured'')"
  by (simp add: Backup_Validate_def estimateRackList_def zeroBackup_def zeroCommon_def
      validateFilePrefix_def validateSingleFilter_def setFilters_def)

text \<open>
  With a Common.Validate that requires the namespace, as the tests of the repository
  expect of it, the input is accepted.
\<close>

theorem Backup_Validate_estimate_rack_list_witness:
  "Backup_Validate (\<lambda>c. if Namespace c = [] then Some (Errorf ''namespace is required'') else None)
     estimateRackList = None"
  using Backup_Validate_estimate_rack_list
    [of "\<lambda>c. if Namespace c = [] then Some (Errorf ''namespace is required'') else None"]
  by (simp add: estimateRackList_def zeroBackup_def zeroCommon_def)

text \<open>
  For the other seven fields the estimate-mode block answers as specified: when the
  checks before it pass, estimate mode with any of them set is rejected.
\<close>

lemma Backup_Validate_estimate_filter:
  assumes "Estimate b"
    and "\<forall>j<8. checks cv b ! j = None"
    and "PartitionList b \<noteq> [] \<or> NodeList b \<noteq> [] \<or> AfterDigest b \<noteq> [] \<or>
         FilterExpression b \<noteq> [] \<or> ModifiedAfter b \<noteq> [] \<or> ModifiedBefore b \<noteq> [] \<or>
         NoTTLOnly b"
  shows "Backup_Validate cv b = Some (Errorf ''estimate with any filter is not allowed'')"
proof -
  have "checks cv b ! 8 = Some (Errorf ''estimate with any filter is not allowed'')"
    using assms(1,3) by (simp add: checks_def checkEstimate_def)
  moreover have "8 < length (checks cv b)"
    by (simp add: checks_def)
  ultimately show ?thesis
    using assms(2) by (simp only: Backup_Validate_firstViolation firstViolation_earliest)
qed

section \<open>ShouldClearTarget\<close>

text \<open>
  Claim C10. ShouldClearTarget returns true if and only if at least one of RemoveFiles and
  RemoveArtifacts is set and Continue is the empty string; so a continue invocation
  (non-empty Continue) never asks for the target directory to be cleared, even with
  remove-artifacts set.
\<close>

theorem ShouldClearTarget_iff:
  "(ShouldClearTarget b \<longleftrightarrow> (RemoveFiles b \<or> RemoveArtifacts b) \<and> Continue b = []) \<and>
   (Continue b \<noteq> [] \<longrightarrow> \<not> ShouldClearTarget b)"
  by (simp add: ShouldClearTarget_def)

theorem ShouldClearTarget_iff_witness:
  "Continue (zeroBackup\<lparr>RemoveArtifacts := True, Continue := ''state.json''\<rparr>) \<noteq> [] \<and>
   \<not> ShouldClearTarget (zeroBackup\<lparr>RemoveArtifacts := True, Continue := ''state.json''\<rparr>) \<and>
   ShouldClearTarget (zeroBackup\<lparr>RemoveArtifacts := True\<rparr>)"
  using ShouldClearTarget_iff [of "zeroBackup\<lparr>RemoveArtifacts := True, Continue := ''state.json''\<rparr>"]
    ShouldClearTarget_iff [of "zeroBackup\<lparr>RemoveArtifacts := True\<rparr>"]
  by (simp add: zeroBackup_def)

section \<open>Properties of validateFilePrefix\<close>

lemma prefixLoop_None: "prefixLoop pre i cs = None \<longleftrightarrow> (\<forall>c \<in> set cs. \<not> forbiddenChar c)"
  by (induction cs arbitrary: i) (auto simp: forbiddenChar_def)

lemma spaceWidth_zero:
  "spaceWidth tbl s = 0 \<longleftrightarrow> (\<forall>w \<in> set tbl. w = [] \<or> take (length w) s \<noteq> w)"
  by (induction tbl) auto

lemma spaceWidth_bound: "spaceWidth tbl s \<le> length s"
proof (induction tbl)
  case Nil
  show ?case by simp
next
  case (Cons w ws)
  have "take (length w) s = w \<Longrightarrow> length w \<le> length s"
    by (metis length_take min.cobounded1)
  with Cons show ?case by simp
qed

lemma trimLeft_length: "length (trimLeft tbl s) \<le> length s"
proof (induction tbl s rule: trimLeft.induct)
  case (1 tbl s)
  show ?case
  proof (cases "spaceWidth tbl s = 0")
    case True
    then show ?thesis by (simp add: trimLeft.simps)
  next
    case False
    with 1 have "length (trimLeft tbl (drop (spaceWidth tbl s) s)) \<le> length (drop (spaceWidth tbl s) s)"
      by simp
    moreover have "trimLeft tbl s = trimLeft tbl (drop (spaceWidth tbl s) s)"
      using False by (subst trimLeft.simps) simp
    ultimately show ?thesis by simp
  qed
qed

lemma trimLeft_shorter:
  assumes "spaceWidth tbl s \<noteq> 0"
  shows "length (trimLeft tbl s) < length s"
proof -
  have "trimLeft tbl s = trimLeft tbl (drop (spaceWidth tbl s) s)"
    using assms by (subst trimLeft.simps) simp
  moreover have "length (trimLeft tbl (drop (spaceWidth tbl s) s)) \<le> length (drop (spaceWidth tbl s) s)"
    by (rule trimLeft_length)
  moreover have "length (drop (spaceWidth tbl s) s) < length s"
    using assms spaceWidth_bound [of tbl s] by simp
  ultimately show ?thesis by simp
qed

lemma trimLeft_id: "spaceWidth tbl s = 0 \<Longrightarrow> trimLeft tbl s = s"
  by (subst trimLeft.simps) simp

text \<open>TrimSpace leaves a string as it is exactly when neither end carries a white-space rune.\<close>

lemma TrimSpace_id:
  "TrimSpace s = s \<longleftrightarrow> spaceWidth spaceRunes s = 0 \<and> spaceWidth (map rev spaceRunes) (rev s) = 0"
proof
  assume "spaceWidth spaceRunes s = 0 \<and> spaceWidth (map rev spaceRunes) (rev s) = 0"
  then show "TrimSpace s = s"
    by (simp add: TrimSpace_def trimLeft_id)
next
  assume eq: "TrimSpace s = s"
  let ?t = "trimLeft spaceRunes s"
  have len: "length (trimLeft (map rev spaceRunes) (rev ?t)) = length s"
    using eq by (metis TrimSpace_def length_rev)
  have le1: "length (trimLeft (map rev spaceRunes) (rev ?t)) \<le> length ?t"
    using trimLeft_length [of "map rev spaceRunes" "rev ?t"] by simp
  have front: "spaceWidth spaceRunes s = 0"
  proof (rule ccontr)
    assume "spaceWidth spaceRunes s \<noteq> 0"
    then have "length ?t < length s" by (rule trimLeft_shorter)
    with le1 len show False by simp
  qed
  then have t: "?t = s" by (rule trimLeft_id)
  have "spaceWidth (map rev spaceRunes) (rev s) = 0"
  proof (rule ccontr)
    assume "spaceWidth (map rev spaceRunes) (rev s) \<noteq> 0"
    then have "length (trimLeft (map rev spaceRunes) (rev s)) < length (rev s)"
      by (rule trimLeft_shorter)
    with len t show False by simp
  qed
  with front show "spaceWidth spaceRunes s = 0 \<and> spaceWidth (map rev spaceRunes) (rev s) = 0"
    by simp
qed

lemma spaceRunes_nonempty: "w \<in> set spaceRunes \<Longrightarrow> w \<noteq> []"
  by (auto simp: spaceRunes_def)

lemma front_space: "spaceWidth spaceRunes s \<noteq> 0 \<longleftrightarrow> startsWithSpace s"
  using spaceRunes_nonempty by (auto simp: spaceWidth_zero startsWithSpace_def)

lemma take_rev_eq: "take (length w) (rev p) = rev w \<longleftrightarrow> drop (length p - length w) p = w"
  by (metis rev_drop rev_rev_ident rev_swap take_rev)

lemma back_space: "spaceWidth (map rev spaceRunes) (rev s) \<noteq> 0 \<longleftrightarrow> endsWithSpace s"
  using spaceRunes_nonempty by (auto simp: spaceWidth_zero endsWithSpace_def take_rev_eq)

text \<open>
  Claim C9. validateFilePrefix rejects a prefix if and only if it contains one of the
  characters \<^verbatim>\<open>\ / : * ? " < > |\<close>, an ASCII control character (codes 0 to 31), DEL
  (code 127), or starts or ends with white space; every other prefix is accepted, the
  empty one included.
\<close>

theorem validateFilePrefix_rejects_iff:
  "validateFilePrefix p \<noteq> None \<longleftrightarrow>
     (\<exists>c \<in> set p. forbiddenChar c) \<or> startsWithSpace p \<or> endsWithSpace p"
proof (cases "p = []")
  case True
  then show ?thesis
    using spaceRunes_nonempty
    by (auto simp: validateFilePrefix_def startsWithSpace_def endsWithSpace_def)
next
  case False
  show ?thesis
  proof (cases "prefixLoop p 0 p")
    case None
    then have "\<not> (\<exists>c \<in> set p. forbiddenChar c)" by (simp add: prefixLoop_None)
    moreover have "validateFilePrefix p \<noteq> None \<longleftrightarrow> TrimSpace p \<noteq> p"
      using False None by (simp add: validateFilePrefix_def)
    ultimately show ?thesis
      using TrimSpace_id [of p] front_space [of p] back_space [of p] by blast
  next
    case (Some e)
    then have "\<exists>c \<in> set p. forbiddenChar c"
      using prefixLoop_None [of p 0 p] by auto
    moreover have "validateFilePrefix p \<noteq> None"
      using False Some by (simp add: validateFilePrefix_def)
    ultimately show ?thesis by simp
  qed
qed

text \<open>
  A prefix of letters, digits, an internal space, a dot, a dash and an underscore is
  accepted, and so is the empty one; a colon inside and a space at the end are rejected.
\<close>

theorem validateFilePrefix_rejects_iff_witness:
  "validateFilePrefix ''backup test.v1-2_3'' = None \<and> validateFilePrefix [] = None \<and>
   validateFilePrefix ''a:b'' \<noteq> None \<and> validateFilePrefix ''backup '' \<noteq> None"
  using validateFilePrefix_rejects_iff [of "''backup test.v1-2_3''"]
    validateFilePrefix_rejects_iff [of "[]"]
    validateFilePrefix_rejects_iff [of "''a:b''"]
    validateFilePrefix_rejects_iff [of "''backup ''"]
  by (simp add: forbiddenChar_def invalidChars_def startsWithSpace_def endsWithSpace_def
      spaceRunes_def)

section \<open>Properties of Restore\<close>




text \<open>
  Claim C8. When the namespace string of a Restore splits on commas into exactly one
  token, NamespaceConfig returns a config whose source and destination are that token;
  for exactly two tokens the source is the first and the destination the second; for
  three or more tokens it returns nil.
\<close>

theorem NamespaceConfig_tokens:
  "(splitByComma (Namespace (rcommon r)) = [t] \<longrightarrow>
      NamespaceConfig r = Some \<lparr>Source = t, Destination = t\<rparr>) \<and>
   (splitByComma (Namespace (rcommon r)) = [s, d] \<longrightarrow>
      NamespaceConfig r = Some \<lparr>Source = s, Destination = d\<rparr>) \<and>
   (3 \<le> length (splitByComma (Namespace (rcommon r))) \<longrightarrow> NamespaceConfig r = None)"
  by (auto simp: NamespaceConfig_def split: list.splits)

theorem NamespaceConfig_tokens_witness:
  "NamespaceConfig (zeroRestore\<lparr>rcommon := zeroCommon\<lparr>Namespace := ''test''\<rparr>\<rparr>) =
     Some \<lparr>Source = ''test'', Destination = ''test''\<rparr> \<and>
   NamespaceConfig (zeroRestore\<lparr>rcommon := zeroCommon\<lparr>Namespace := ''src,dst''\<rparr>\<rparr>) =
     Some \<lparr>Source = ''src'', Destination = ''dst''\<rparr> \<and>
   NamespaceConfig (zeroRestore\<lparr>rcommon := zeroCommon\<lparr>Namespace := ''a,b,c''\<rparr>\<rparr>) = None"
  using NamespaceConfig_tokens
      [of "zeroRestore\<lparr>rcommon := zeroCommon\<lparr>Namespace := ''test''\<rparr>\<rparr>" "''test''"]
    NamespaceConfig_tokens
      [of "zeroRestore\<lparr>rcommon := zeroCommon\<lparr>Namespace := ''src,dst''\<rparr>\<rparr>" _ "''src''" "''dst''"]
    NamespaceConfig_tokens [of "zeroRestore\<lparr>rcommon := zeroCommon\<lparr>Namespace := ''a,b,c''\<rparr>\<rparr>"]
  by (simp add: splitByComma_def SplitByComma_def zeroRestore_def zeroCommon_def)

section \<open>Properties of ValidateStorages\<close>

lemma awsS3Block_eq:
  "awsS3Block vs3 isBackup awsS3 c =
     providerBlock (AwsS3_IsConfigured awsS3)
       (case awsS3 of Some a \<Rightarrow> vs3 isBackup a | None \<Rightarrow> None) ''failed to validate aws s3'' c"
  by (simp add: awsS3Block_def providerBlock_def AwsS3_IsConfigured_def split: option.split)

lemma gcpBlock_eq:
  "gcpBlock vgcp isBackup gcp c =
     providerBlock (GcpStorage_IsConfigured gcp)
       (case gcp of Some a \<Rightarrow> vgcp isBackup a | None \<Rightarrow> None) ''failed to validate gcp storage'' c"
  by (simp add: gcpBlock_def providerBlock_def GcpStorage_IsConfigured_def split: option.split)

lemma azureBlock_eq:
  "azureBlock vsc isBackup az c =
     providerBlock (AzureBlob_IsConfigured az)
       (case az of Some a \<Rightarrow> AzureBlob_Validate vsc isBackup a | None \<Rightarrow> None)
       ''failed to validate azure blob'' c"
  by (simp add: azureBlock_def providerBlock_def AzureBlob_IsConfigured_def split: option.split)

text \<open>The two functions of validation.go return the same result.\<close>

lemma ValidateStorages_eq:
  "ValidateStorages vl vs3 vgcp vsc isBackup awsS3 gcp az local =
   validateStorages vl vs3 vgcp vsc isBackup awsS3 gcp az local"
  by (simp only: ValidateStorages_def validateStorages_def awsS3Block_eq gcpBlock_eq azureBlock_eq)

lemma chain_exclusive:
  "lv \<noteq> Some (Errorf ''only one cloud provider can be configured'') \<Longrightarrow>
   chain lv c1 v1 c2 v2 c3 v3 = Some (Errorf ''only one cloud provider can be configured'') \<longleftrightarrow>
     (lv = None \<and> (c1 \<longrightarrow> v1 = None) \<and> (c2 \<longrightarrow> v2 = None) \<and> (c3 \<longrightarrow> v3 = None)) \<and>
     2 \<le> (if c1 then 1 else 0) + (if c2 then 1 else 0) + (if c3 then (1::nat) else 0)"
  by (cases lv; cases v1; cases v2; cases v3; cases c1; cases c2; cases c3)
     (simp_all add: chain_def providerBlock_def)

lemma chain_local: "lv = Some e \<Longrightarrow> chain lv c1 v1 c2 v2 c3 v3 = Some e"
  by (simp add: chain_def)

lemma chain_s3:
  "lv = None \<Longrightarrow> c1 \<Longrightarrow> v1 = Some e \<Longrightarrow>
   chain lv c1 v1 c2 v2 c3 v3 = Some (Wrap ''failed to validate aws s3'' e)"
  by (simp add: chain_def providerBlock_def)

lemma chain_gcp:
  "lv = None \<Longrightarrow> c1 \<longrightarrow> v1 = None \<Longrightarrow> c2 \<Longrightarrow> v2 = Some e \<Longrightarrow>
   chain lv c1 v1 c2 v2 c3 v3 = Some (Wrap ''failed to validate gcp storage'' e)"
  by (cases c1) (simp_all add: chain_def providerBlock_def)

lemma chain_azure:
  "lv = None \<Longrightarrow> c1 \<longrightarrow> v1 = None \<Longrightarrow> c2 \<longrightarrow> v2 = None \<Longrightarrow> c3 \<Longrightarrow> v3 = Some e \<Longrightarrow>
   chain lv c1 v1 c2 v2 c3 v3 = Some (Wrap ''failed to validate azure blob'' e)"
  by (cases c1; cases c2) (simp_all add: chain_def providerBlock_def)

lemma chain_None:
  "chain lv c1 v1 c2 v2 c3 v3 = None \<longleftrightarrow>
     (lv = None \<and> (c1 \<longrightarrow> v1 = None) \<and> (c2 \<longrightarrow> v2 = None) \<and> (c3 \<longrightarrow> v3 = None)) \<and>
     (if c1 then 1 else 0) + (if c2 then 1 else 0) + (if c3 then (1::nat) else 0) \<le> 1"
  by (cases lv; cases v1; cases v2; cases v3; cases c1; cases c2; cases c3)
     (simp_all add: chain_def providerBlock_def)

lemma verdict_if: "(if c then v else None) = Some e \<longleftrightarrow> c \<and> v = Some e"
  by simp

lemma verdict_if_None: "(if c then v else None) = None \<longleftrightarrow> (c \<longrightarrow> v = None)"
  by simp

lemma localBlock_None:
  "localBlock vl isBackup local = None \<longleftrightarrow>
     (case local of Some l \<Rightarrow> vl isBackup l = None | None \<Rightarrow> True)"
  by (simp add: localBlock_def split: option.splits)

lemma localBlock_Wrap: "localBlock vl isBackup local \<noteq> Some (Errorf t)"
  by (simp add: localBlock_def split: option.splits)

lemma verdict_None:
  "(case p of Some a \<Rightarrow> v a | None \<Rightarrow> None) = None \<longleftrightarrow>
     (case p of Some a \<Rightarrow> v a = None | None \<Rightarrow> True)"
  by (simp split: option.splits)

lemma validateStorages_chain:
  "validateStorages vl vs3 vgcp vsc isBackup awsS3 gcp az local =
     chain (localBlock vl isBackup local)
       (AwsS3_IsConfigured awsS3) (case awsS3 of Some a \<Rightarrow> vs3 isBackup a | None \<Rightarrow> None)
       (GcpStorage_IsConfigured gcp) (case gcp of Some g \<Rightarrow> vgcp isBackup g | None \<Rightarrow> None)
       (AzureBlob_IsConfigured az)
       (case az of Some a \<Rightarrow> AzureBlob_Validate vsc isBackup a | None \<Rightarrow> None)"
  by (simp only: validateStorages_def chain_def)

lemma storagesValid_chain:
  "storagesValid vl vs3 vgcp vsc isBackup awsS3 gcp az local \<longleftrightarrow>
     localBlock vl isBackup local = None \<and>
     (AwsS3_IsConfigured awsS3 \<longrightarrow>
        (case awsS3 of Some a \<Rightarrow> vs3 isBackup a | None \<Rightarrow> None) = None) \<and>
     (GcpStorage_IsConfigured gcp \<longrightarrow>
        (case gcp of Some g \<Rightarrow> vgcp isBackup g | None \<Rightarrow> None) = None) \<and>
     (AzureBlob_IsConfigured az \<longrightarrow>
        (case az of Some a \<Rightarrow> AzureBlob_Validate vsc isBackup a | None \<Rightarrow> None) = None)"
  by (simp only: storagesValid_def localBlock_None verdict_None)

text \<open>
  The statement of claim C5 fails where a configured provider does not pass its own
  validation. With an S3 bucket and a GCP bucket that are accepted, the counter stands
  at 2 when the Azure block is reached, and the Azure configuration with only its
  account name fails with "container name is required", not with the exclusivity error.
  An S3 bucket and an Azure container without endpoint are two configured providers,
  and the result is "endpoint is required". Local with that Azure container as the only
  configured provider does not pass.
\<close>

theorem ValidateStorages_counted_counterexample:
  "awsS3Block accepting True (Some s3Bucket) 0 = Inr 1 \<and>
   gcpBlock accepting True (Some gcsBucket) 1 = Inr 2 \<and>
   ValidateStorages accepting accepting accepting accepting True
      (Some s3Bucket) (Some gcsBucket) (Some azureAccountOnly) (None :: unit option) =
     Some (Wrap ''failed to validate azure blob'' (Errorf ''container name is required'')) \<and>
   configuredCount (Some s3Bucket) None (Some azureNoEndpoint) = 2 \<and>
   ValidateStorages accepting accepting accepting accepting True
      (Some s3Bucket) None (Some azureNoEndpoint) (Some ()) =
     Some (Wrap ''failed to validate azure blob'' (Errorf ''endpoint is required'')) \<and>
   configuredCount None None (Some azureNoEndpoint) = 1 \<and>
   ValidateStorages accepting accepting accepting accepting True
      None None (Some azureNoEndpoint) (Some ()) =
     Some (Wrap ''failed to validate azure blob'' (Errorf ''endpoint is required''))"
  by (simp add: ValidateStorages_def localBlock_def awsS3Block_def gcpBlock_def azureBlock_def
      AzureBlob_Validate_def accepting_def s3Bucket_def gcsBucket_def azureAccountOnly_def
      azureNoEndpoint_def azureContainer_def configuredCount_def AwsS3_IsConfigured_def
      GcpStorage_IsConfigured_def AzureBlob_IsConfigured_def)

text \<open>
  Claim C5, amended. In the storage check, Local is validated whenever it is present,
  and a failure of its validation is the result. A cloud provider is validated only when
  one of its identifying fields is non-empty, and counted only when it is then valid:
  when Local passes, the result is the wrapped validation error of the first configured
  provider, in the order S3, GCP, Azure, that fails its validation. The check fails with
  "only one cloud provider can be configured" if and only if Local and every configured
  provider pass their validation and two or more providers are configured; it passes if
  and only if they all pass their validation and at most one provider is configured, so
  Local together with exactly one configured cloud provider passes when both are valid.
  The exported and the unexported function of validation.go agree.
\<close>

theorem ValidateStorages_exclusive:
  "(\<forall>l e. local = Some l \<and> vl isBackup l = Some e \<longrightarrow>
      ValidateStorages vl vs3 vgcp vsc isBackup awsS3 gcp az local =
        Some (Wrap ''failed to validate local storage'' e)) \<and>
   (localValid vl isBackup local \<longrightarrow>
      (\<forall>e. awsS3Verdict vs3 isBackup awsS3 = Some e \<longrightarrow>
         ValidateStorages vl vs3 vgcp vsc isBackup awsS3 gcp az local =
           Some (Wrap ''failed to validate aws s3'' e)) \<and>
      (\<forall>e. awsS3Verdict vs3 isBackup awsS3 = None \<and> gcpVerdict vgcp isBackup gcp = Some e \<longrightarrow>
         ValidateStorages vl vs3 vgcp vsc isBackup awsS3 gcp az local =
           Some (Wrap ''failed to validate gcp storage'' e)) \<and>
      (\<forall>e. awsS3Verdict vs3 isBackup awsS3 = None \<and> gcpVerdict vgcp isBackup gcp = None \<and>
           azureVerdict vsc isBackup az = Some e \<longrightarrow>
         ValidateStorages vl vs3 vgcp vsc isBackup awsS3 gcp az local =
           Some (Wrap ''failed to validate azure blob'' e))) \<and>
   (ValidateStorages vl vs3 vgcp vsc isBackup awsS3 gcp az local =
      Some (Errorf ''only one cloud provider can be configured'') \<longleftrightarrow>
      storagesValid vl vs3 vgcp vsc isBackup awsS3 gcp az local \<and>
      2 \<le> configuredCount awsS3 gcp az) \<and>
   (ValidateStorages vl vs3 vgcp vsc isBackup awsS3 gcp az local = None \<longleftrightarrow>
      storagesValid vl vs3 vgcp vsc isBackup awsS3 gcp az local \<and>
      configuredCount awsS3 gcp az \<le> 1) \<and>
   ValidateStorages vl vs3 vgcp vsc isBackup awsS3 gcp az local =
     validateStorages vl vs3 vgcp vsc isBackup awsS3 gcp az local"
proof (intro conjI impI allI)
  fix l e
  assume "local = Some l \<and> vl isBackup l = Some e"
  then show "ValidateStorages vl vs3 vgcp vsc isBackup awsS3 gcp az local =
        Some (Wrap ''failed to validate local storage'' e)"
    by (simp add: ValidateStorages_def localBlock_def)
next
  fix e
  assume "localValid vl isBackup local" and "awsS3Verdict vs3 isBackup awsS3 = Some e"
  then show "ValidateStorages vl vs3 vgcp vsc isBackup awsS3 gcp az local =
           Some (Wrap ''failed to validate aws s3'' e)"
    unfolding ValidateStorages_eq validateStorages_chain localValid_def awsS3Verdict_def
      verdict_if localBlock_None [symmetric]
    by (intro chain_s3) simp_all
next
  fix e
  assume "localValid vl isBackup local"
    and "awsS3Verdict vs3 isBackup awsS3 = None \<and> gcpVerdict vgcp isBackup gcp = Some e"
  then show "ValidateStorages vl vs3 vgcp vsc isBackup awsS3 gcp az local =
           Some (Wrap ''failed to validate gcp storage'' e)"
    unfolding ValidateStorages_eq validateStorages_chain localValid_def awsS3Verdict_def
      gcpVerdict_def verdict_if verdict_if_None localBlock_None [symmetric]
    by (intro chain_gcp) simp_all
next
  fix e
  assume "localValid vl isBackup local"
    and "awsS3Verdict vs3 isBackup awsS3 = None \<and> gcpVerdict vgcp isBackup gcp = None \<and>
           azureVerdict vsc isBackup az = Some e"
  then show "ValidateStorages vl vs3 vgcp vsc isBackup awsS3 gcp az local =
           Some (Wrap ''failed to validate azure blob'' e)"
    unfolding ValidateStorages_eq validateStorages_chain localValid_def awsS3Verdict_def
      gcpVerdict_def azureVerdict_def verdict_if verdict_if_None localBlock_None [symmetric]
    by (intro chain_azure) simp_all
next
  show "ValidateStorages vl vs3 vgcp vsc isBackup awsS3 gcp az local =
      Some (Errorf ''only one cloud provider can be configured'') \<longleftrightarrow>
      storagesValid vl vs3 vgcp vsc isBackup awsS3 gcp az local \<and>
      2 \<le> configuredCount awsS3 gcp az"
    unfolding ValidateStorages_eq validateStorages_chain storagesValid_chain configuredCount_def
    by (rule chain_exclusive) (rule localBlock_Wrap)
next
  show "ValidateStorages vl vs3 vgcp vsc isBackup awsS3 gcp az local = None \<longleftrightarrow>
      storagesValid vl vs3 vgcp vsc isBackup awsS3 gcp az local \<and>
      configuredCount awsS3 gcp az \<le> 1"
    unfolding ValidateStorages_eq validateStorages_chain storagesValid_chain configuredCount_def
    by (rule chain_None)
next
  show "ValidateStorages vl vs3 vgcp vsc isBackup awsS3 gcp az local =
     validateStorages vl vs3 vgcp vsc isBackup awsS3 gcp az local"
    by (rule ValidateStorages_eq)
qed

text \<open>
  With validators that accept: an S3 bucket and an Azure container together are
  rejected; Local with the S3 bucket alone passes; a Local that fails its validation is
  reported before anything else; and after an S3 and a GCP bucket, an Azure
  configuration without container name is reported with its own error.
\<close>

theorem ValidateStorages_exclusive_witness:
  "ValidateStorages accepting accepting accepting accepting True
      (Some s3Bucket) None (Some azureContainer) (Some ()) =
     Some (Errorf ''only one cloud provider can be configured'') \<and>
   ValidateStorages accepting accepting accepting accepting True
      (Some s3Bucket) None (None :: unit AzureBlob option) (Some ()) = None \<and>
   ValidateStorages (\<lambda>b l. Some (Errorf ''path is required'')) accepting accepting accepting True
      (Some s3Bucket) None (Some azureContainer) (Some ()) =
     Some (Wrap ''failed to validate local storage'' (Errorf ''path is required'')) \<and>
   ValidateStorages accepting accepting accepting accepting True
      (Some s3Bucket) (Some gcsBucket) (Some azureAccountOnly) (Some ()) =
     Some (Wrap ''failed to validate azure blob'' (Errorf ''container name is required''))"
  using ValidateStorages_exclusive [of "Some ()" accepting True accepting accepting
      accepting "Some s3Bucket" None "Some azureContainer"]
    ValidateStorages_exclusive [of "Some ()" accepting True accepting accepting
      accepting "Some s3Bucket" None "None :: unit AzureBlob option"]
    ValidateStorages_exclusive [of "Some ()" "\<lambda>b l. Some (Errorf ''path is required'')" True
      accepting accepting accepting "Some s3Bucket" None "Some azureContainer"]
    ValidateStorages_exclusive [of "Some ()" accepting True accepting accepting
      accepting "Some s3Bucket" "Some gcsBucket" "Some azureAccountOnly"]
  by (simp add: storagesValid_def configuredCount_def localValid_def awsS3Verdict_def
      gcpVerdict_def azureVerdict_def AwsS3_IsConfigured_def GcpStorage_IsConfigured_def
      AzureBlob_IsConfigured_def AzureBlob_Validate_def accepting_def s3Bucket_def
      gcsBucket_def azureAccountOnly_def azureNoEndpoint_def azureContainer_def)

section \<open>Properties of validatePartitionFilters\<close>












lemma noTwoMeet_sorted_wrt: "noTwoMeet fs = sorted_wrt (\<lambda>f g. \<not> meet f g) fs"
  by (induction fs) auto











text \<open>
  The ends fit for every list of partition ranges of a namespace: begins from 0 to 4095
  and counts up to 4096.
\<close>

lemma endsFit_partitions:
  assumes "\<forall>f \<in> set fs. sint (Begin f) < 4096 \<and> sint (Count f) \<le> 4096"
  shows "endsFit fs"
  using assms by (auto simp: endsFit_def endFits_def MaxInt_def rangeFilters_def)

text \<open>\<open>noTwoMeet\<close> fails exactly when two filters at different positions meet.\<close>

lemma noTwoMeet_nth:
  "\<not> noTwoMeet fs \<longleftrightarrow> (\<exists>i j. i < j \<and> j < length fs \<and> meet (fs ! i) (fs ! j))"
  unfolding noTwoMeet_sorted_wrt sorted_wrt_iff_nth_less by blast




section \<open>Properties of parseLocalTimeToUTC\<close>

lemma MatchString_length: "MatchString ps s \<Longrightarrow> length s = length ps"
  by (induction ps s rule: MatchString.induct) auto

lemma exp_lengths:
  "length expDateTime = 19" "length expTimeOnly = 8" "length expDateOnly = 10"
  by (simp_all add: expDateTime_def expTimeOnly_def expDateOnly_def)

lemma not_two_patterns:
  "MatchString expTimeOnly s \<Longrightarrow> \<not> MatchString expDateTime s"
  "MatchString expDateOnly s \<Longrightarrow> \<not> MatchString expDateTime s"
  "MatchString expDateOnly s \<Longrightarrow> \<not> MatchString expTimeOnly s"
  using MatchString_length [of expDateTime s] MatchString_length [of expTimeOnly s]
    MatchString_length [of expDateOnly s]
  by (auto simp: exp_lengths)

lemma MatchString_append:
  "MatchString ps s \<Longrightarrow> MatchString qs t \<Longrightarrow> MatchString (ps @ qs) (s @ t)"
  by (induction ps s rule: MatchString.induct) auto

lemma midnight_appended:
  assumes "MatchString expDateOnly s"
  shows "MatchString expDateTime (s @ ''_00:00:00'')"
proof -
  have "MatchString (expDateOnly @ [Lit CHR ''_'', Digit, Digit, Lit CHR '':'', Digit, Digit,
      Lit CHR '':'', Digit, Digit]) (s @ ''_00:00:00'')"
    using assms by (rule MatchString_append) simp
  then show ?thesis by (simp add: expDateTime_def expDateOnly_def)
qed

lemma parseLocalTimeToUTC_no_location:
  "LoadLocal env = Inl e \<Longrightarrow>
     parseLocalTimeToUTC env s = Inl (Wrap ''failed to load timezone location'' e)"
  by (simp add: parseLocalTimeToUTC_def)

text \<open>
  Claim C7. With the local time zone loaded, parseLocalTimeToUTC matches its input
  against three patterns: a full datetime YYYY-MM-DD_HH:MM:SS is taken as it is, a time
  HH:MM:SS gets today's local date prepended, a date YYYY-MM-DD gets midnight appended
  (no input matches two of the patterns, so the priority among them decides nothing);
  an input matching none of the three fails with "unknown time format"; when the
  library's parser rejects the normalized string, as it does for field values that are
  not valid (month 13, hour 25), the function fails with "failed to parse time"; and
  when the parser accepts, the result is the time parsed in the local time zone,
  converted to UTC.
\<close>

theorem parseLocalTimeToUTC_cases:
  assumes "LoadLocal env = Inr loc"
  shows
   "(MatchString expDateTime s \<and> ParseInLocation env s loc = Inr t \<longrightarrow>
       parseLocalTimeToUTC env s = Inr (ToUTC env t)) \<and>
    (MatchString expTimeOnly s \<and> ParseInLocation env (Today env loc @ ''_'' @ s) loc = Inr t \<longrightarrow>
       parseLocalTimeToUTC env s = Inr (ToUTC env t)) \<and>
    (MatchString expDateOnly s \<and> ParseInLocation env (s @ ''_00:00:00'') loc = Inr t \<longrightarrow>
       parseLocalTimeToUTC env s = Inr (ToUTC env t)) \<and>
    (\<not> MatchString expDateTime s \<and> \<not> MatchString expTimeOnly s \<and> \<not> MatchString expDateOnly s \<longrightarrow>
       parseLocalTimeToUTC env s = Inl (Errorf (''unknown time format: '' @ s))) \<and>
    (MatchString expDateTime s \<and> ParseInLocation env s loc = Inl e \<longrightarrow>
       parseLocalTimeToUTC env s = Inl (Wrap (''failed to parse time '' @ s) e)) \<and>
    (MatchString expTimeOnly s \<and> ParseInLocation env (Today env loc @ ''_'' @ s) loc = Inl e \<longrightarrow>
       parseLocalTimeToUTC env s = Inl (Wrap (''failed to parse time '' @ s) e)) \<and>
    (MatchString expDateOnly s \<and> ParseInLocation env (s @ ''_00:00:00'') loc = Inl e \<longrightarrow>
       parseLocalTimeToUTC env s = Inl (Wrap (''failed to parse time '' @ s) e)) \<and>
    (rejectsInvalid env \<and> MatchString expDateTime s \<and> \<not> validFields s \<longrightarrow>
       (\<exists>e'. parseLocalTimeToUTC env s = Inl (Wrap (''failed to parse time '' @ s) e'))) \<and>
    (rejectsInvalid env \<and> MatchString expDateOnly s \<and> \<not> validFields (s @ ''_00:00:00'') \<longrightarrow>
       (\<exists>e'. parseLocalTimeToUTC env s = Inl (Wrap (''failed to parse time '' @ s) e')))"
proof -
  have dt: "MatchString expDateTime s \<Longrightarrow> parseLocalTimeToUTC env s =
      (case ParseInLocation env s loc of
         Inl err \<Rightarrow> Inl (Wrap (''failed to parse time '' @ s) err)
       | Inr localTime \<Rightarrow> Inr (ToUTC env localTime))"
    using assms by (simp add: parseLocalTimeToUTC_def)
  have tm: "MatchString expTimeOnly s \<Longrightarrow> parseLocalTimeToUTC env s =
      (case ParseInLocation env (Today env loc @ ''_'' @ s) loc of
         Inl err \<Rightarrow> Inl (Wrap (''failed to parse time '' @ s) err)
       | Inr localTime \<Rightarrow> Inr (ToUTC env localTime))"
    using assms not_two_patterns(1) [of s] by (simp add: parseLocalTimeToUTC_def)
  have d: "MatchString expDateOnly s \<Longrightarrow> parseLocalTimeToUTC env s =
      (case ParseInLocation env (s @ ''_00:00:00'') loc of
         Inl err \<Rightarrow> Inl (Wrap (''failed to parse time '' @ s) err)
       | Inr localTime \<Rightarrow> Inr (ToUTC env localTime))"
    using assms not_two_patterns(2,3) [of s] by (simp add: parseLocalTimeToUTC_def)
  have none: "\<not> MatchString expDateTime s \<and> \<not> MatchString expTimeOnly s \<and> \<not> MatchString expDateOnly s \<Longrightarrow>
       parseLocalTimeToUTC env s = Inl (Errorf (''unknown time format: '' @ s))"
    using assms by (simp add: parseLocalTimeToUTC_def)
  have rej: "\<exists>e'. ParseInLocation env v loc = Inl e'"
    if "rejectsInvalid env" "MatchString expDateTime v" "\<not> validFields v" for v
    using that by (metis rejectsInvalid_def isl_def)
  have c1: "MatchString expDateTime s \<and> ParseInLocation env s loc = Inr t \<longrightarrow>
       parseLocalTimeToUTC env s = Inr (ToUTC env t)"
    using dt by simp
  have c2: "MatchString expTimeOnly s \<and> ParseInLocation env (Today env loc @ ''_'' @ s) loc = Inr t \<longrightarrow>
       parseLocalTimeToUTC env s = Inr (ToUTC env t)"
    using tm by simp
  have c3: "MatchString expDateOnly s \<and> ParseInLocation env (s @ ''_00:00:00'') loc = Inr t \<longrightarrow>
       parseLocalTimeToUTC env s = Inr (ToUTC env t)"
    using d by simp
  have c5: "MatchString expDateTime s \<and> ParseInLocation env s loc = Inl e \<longrightarrow>
       parseLocalTimeToUTC env s = Inl (Wrap (''failed to parse time '' @ s) e)"
    using dt by simp
  have c6: "MatchString expTimeOnly s \<and> ParseInLocation env (Today env loc @ ''_'' @ s) loc = Inl e \<longrightarrow>
       parseLocalTimeToUTC env s = Inl (Wrap (''failed to parse time '' @ s) e)"
    using tm by simp
  have c7: "MatchString expDateOnly s \<and> ParseInLocation env (s @ ''_00:00:00'') loc = Inl e \<longrightarrow>
       parseLocalTimeToUTC env s = Inl (Wrap (''failed to parse time '' @ s) e)"
    using d by simp
  have c8: "rejectsInvalid env \<and> MatchString expDateTime s \<and> \<not> validFields s \<longrightarrow>
       (\<exists>e'. parseLocalTimeToUTC env s = Inl (Wrap (''failed to parse time '' @ s) e'))"
  proof (intro impI, elim conjE)
    assume "rejectsInvalid env" "MatchString expDateTime s" "\<not> validFields s"
    then obtain e' where "ParseInLocation env s loc = Inl e'" using rej by blast
    with dt \<open>MatchString expDateTime s\<close> show
      "\<exists>e'. parseLocalTimeToUTC env s = Inl (Wrap (''failed to parse time '' @ s) e')"
      by simp
  qed
  have c9: "rejectsInvalid env \<and> MatchString expDateOnly s \<and> \<not> validFields (s @ ''_00:00:00'') \<longrightarrow>
       (\<exists>e'. parseLocalTimeToUTC env s = Inl (Wrap (''failed to parse time '' @ s) e'))"
  proof (intro impI, elim conjE)
    assume "rejectsInvalid env" "MatchString expDateOnly s" "\<not> validFields (s @ ''_00:00:00'')"
    then obtain e' where "ParseInLocation env (s @ ''_00:00:00'') loc = Inl e'"
      using rej midnight_appended by blast
    with d \<open>MatchString expDateOnly s\<close> show
      "\<exists>e'. parseLocalTimeToUTC env s = Inl (Wrap (''failed to parse time '' @ s) e')"
      by simp
  qed
  from c1 c2 c3 none c5 c6 c7 c8 c9 show ?thesis by blast
qed

lemma utcEnv_rejects: "rejectsInvalid utcEnv"
  by (simp add: rejectsInvalid_def utcEnv_def)

text \<open>
  In an environment whose local zone is UTC, on 2024-03-15: the inputs of the
  specification and of the tests of the repository.
\<close>

theorem parseLocalTimeToUTC_cases_witness:
  "parseLocalTimeToUTC utcEnv ''2024-01-01'' = Inr ''2024-01-01_00:00:00'' \<and>
   parseLocalTimeToUTC utcEnv ''12:34:56'' = Inr ''2024-03-15_12:34:56'' \<and>
   parseLocalTimeToUTC utcEnv ''2023-09-01_12:34:56'' = Inr ''2023-09-01_12:34:56'' \<and>
   parseLocalTimeToUTC utcEnv ''not-a-time'' = Inl (Errorf ''unknown time format: not-a-time'') \<and>
   (\<exists>e. parseLocalTimeToUTC utcEnv ''2023-13-01_12:00:00'' =
      Inl (Wrap ''failed to parse time 2023-13-01_12:00:00'' e)) \<and>
   (\<exists>e. parseLocalTimeToUTC utcEnv ''2023-09-01_25:00:00'' =
      Inl (Wrap ''failed to parse time 2023-09-01_25:00:00'' e))"
proof -
  have l: "LoadLocal utcEnv = Inr ()" by (simp add: utcEnv_def)
  have v1: "validFields ''2024-01-01_00:00:00''" "validFields ''2024-03-15_12:34:56''"
    "validFields ''2023-09-01_12:34:56''"
    by (simp_all add: validFields_def number_def daysIn_def)
  have v2: "\<not> validFields ''2023-13-01_12:00:00''" "\<not> validFields ''2023-09-01_25:00:00''"
    by (simp_all add: validFields_def number_def daysIn_def)
  have a: "parseLocalTimeToUTC utcEnv ''2024-01-01'' = Inr ''2024-01-01_00:00:00''"
    using parseLocalTimeToUTC_cases [OF l, of "''2024-01-01''" "''2024-01-01_00:00:00''"] v1
    by (simp add: utcEnv_def expDateOnly_def)
  have b: "parseLocalTimeToUTC utcEnv ''12:34:56'' = Inr ''2024-03-15_12:34:56''"
    using parseLocalTimeToUTC_cases [OF l, of "''12:34:56''" "''2024-03-15_12:34:56''"] v1
    by (simp add: utcEnv_def expTimeOnly_def)
  have c: "parseLocalTimeToUTC utcEnv ''2023-09-01_12:34:56'' = Inr ''2023-09-01_12:34:56''"
    using parseLocalTimeToUTC_cases [OF l, of "''2023-09-01_12:34:56''" "''2023-09-01_12:34:56''"] v1
    by (simp add: utcEnv_def expDateTime_def)
  have d: "parseLocalTimeToUTC utcEnv ''not-a-time'' = Inl (Errorf ''unknown time format: not-a-time'')"
    using parseLocalTimeToUTC_cases [OF l, of "''not-a-time''"]
    by (simp add: expDateTime_def expTimeOnly_def expDateOnly_def)
  have e: "\<exists>e. parseLocalTimeToUTC utcEnv ''2023-13-01_12:00:00'' =
      Inl (Wrap ''failed to parse time 2023-13-01_12:00:00'' e)"
    using parseLocalTimeToUTC_cases [OF l, of "''2023-13-01_12:00:00''"] v2 utcEnv_rejects
    by (simp add: expDateTime_def)
  have f: "\<exists>e. parseLocalTimeToUTC utcEnv ''2023-09-01_25:00:00'' =
      Inl (Wrap ''failed to parse time 2023-09-01_25:00:00'' e)"
    using parseLocalTimeToUTC_cases [OF l, of "''2023-09-01_25:00:00''"] v2 utcEnv_rejects
    by (simp add: expDateTime_def)
  from a b c d e f show ?thesis by blast
qed

section \<open>Properties of newBackupConfig\<close>

lemma rackStep_kept: "rackStep atoi b c = Inr c' \<Longrightarrow> kept c c'"
  by (auto simp: rackStep_def kept_def split: if_splits sum.splits)

lemma stateSteps_kept: "kept c (stateSteps join b c)"
  by (simp add: stateSteps_def kept_def Let_def)

lemma policySteps_kept: "policySteps lib config b c = Inr c' \<Longrightarrow> kept c c'"
  by (auto simp: policySteps_def kept_def split: sum.splits)

lemma modBeforeStep_kept: "modBeforeStep env b c = Inr c' \<Longrightarrow> kept c c'"
  by (auto simp: modBeforeStep_def kept_def split: if_splits sum.splits)

lemma modAfterStep_kept: "modAfterStep env b c = Inr c' \<Longrightarrow> kept c c'"
  by (auto simp: modAfterStep_def kept_def split: if_splits sum.splits)

lemma kept_trans: "kept a b \<Longrightarrow> kept b c \<Longrightarrow> kept a c"
  by (simp add: kept_def)

lemma newBackupConfig_kept:
  assumes "newBackupConfig lib config = Inr c" and "svcBackup config = Some b"
  shows "kept (stdoutOverride config b (copyFields b (NewDefaultBackupConfig lib))) c"
proof -
  let ?c0 = "stdoutOverride config b (copyFields b (NewDefaultBackupConfig lib))"
  from assms obtain c1 c2 c3 where
    s1: "rackStep (Atoi lib) b ?c0 = Inr c1" and
    s2: "policySteps lib config b (stateSteps (pathJoin lib) b c1) = Inr c2" and
    s3: "modBeforeStep (timeLib lib) b c2 = Inr c3" and
    s4: "modAfterStep (timeLib lib) b c3 = Inr c"
    by (auto simp: newBackupConfig_def split: sum.splits)
  have "kept ?c0 c1" using s1 by (rule rackStep_kept)
  moreover have "kept c1 (stateSteps (pathJoin lib) b c1)" by (rule stateSteps_kept)
  moreover have "kept (stateSteps (pathJoin lib) b c1) c2" using s2 by (rule policySteps_kept)
  moreover have "kept c2 c3" using s3 by (rule modBeforeStep_kept)
  moreover have "kept c3 c" using s4 by (rule modAfterStep_kept)
  ultimately show ?thesis by (meson kept_trans)
qed

text \<open>
  Claim C6. Whenever newBackupConfig assembles a configuration from a Backup whose output
  target is stdout (output-file equal to "-") or a single output file (output-file
  non-empty), the assembled configuration has file-limit 0 and write-parallelism 1,
  whatever the configured parallel value is, and read-parallelism is the configured
  parallel value. With no output file, the file limit is the configured number of MiB
  in bytes and both parallelism parameters are the configured value.
\<close>

theorem newBackupConfig_single_output:
  assumes "newBackupConfig lib config = Inr c" and "svcBackup config = Some b"
  shows "(IsStdout config \<or> OutputFile b \<noteq> [] \<longrightarrow>
            cfgFileLimit c = 0 \<and> cfgParallelWrite c = 1 \<and> cfgParallelRead c = Parallel (common b)) \<and>
         (OutputFile b = [] \<longrightarrow>
            cfgFileLimit c = FileLimit b * 1024 * 1024 \<and> cfgParallelWrite c = Parallel (common b) \<and>
            cfgParallelRead c = Parallel (common b))"
  using newBackupConfig_kept [OF assms] assms(2)
  by (auto simp: kept_def stdoutOverride_def copyFields_def IsStdout_def StdPlaceholder_def)

text \<open>
  The stdout test of the repository (parallel = 8, file limit 1000, output to "-"): the
  assembly succeeds, with file limit 0, write-parallelism 1 and read-parallelism 8.
\<close>

theorem newBackupConfig_single_output_witness:
  "\<not> isl (newBackupConfig testLibraries stdoutService) \<and>
   cfgFileLimit (projr (newBackupConfig testLibraries stdoutService)) = 0 \<and>
   cfgParallelWrite (projr (newBackupConfig testLibraries stdoutService)) = 1 \<and>
   cfgParallelRead (projr (newBackupConfig testLibraries stdoutService)) = 8"
proof -
  have r: "\<not> isl (newBackupConfig testLibraries stdoutService)"
    by (simp add: newBackupConfig_def copyFields_def stdoutOverride_def rackStep_def
        stateSteps_def policySteps_def Backup_PartitionFilters_def resolveFilters_def
        validatePartitionFilters_def sortByBegin_def Backup_ScanPolicy_def modBeforeStep_def
        modAfterStep_def testLibraries_def stdoutService_def zeroBackup_def zeroCommon_def
        IsStdout_def StdPlaceholder_def Let_def)
  then have e: "newBackupConfig testLibraries stdoutService =
      Inr (projr (newBackupConfig testLibraries stdoutService))"
    by simp
  have b: "svcBackup stdoutService =
      Some (zeroBackup\<lparr>common := zeroCommon\<lparr>Parallel := 8\<rparr>, OutputFile := StdPlaceholder,
              FileLimit := 1000\<rparr>)"
    by (simp add: stdoutService_def)
  show ?thesis
    using r newBackupConfig_single_output [OF e b]
    by (simp add: IsStdout_def stdoutService_def StdPlaceholder_def zeroBackup_def zeroCommon_def)
qed

end
